theory Spec2Isabelle
  imports Main "HOL-Library.Word"
begin

unbundle bit_operations_syntax

section \<open>Words, permission flags and their constants\<close>

text \<open>
  The secure native contracts of \<^verbatim>\<open>vm/snative.go\<close> read their arguments from a byte
  buffer, one 32-byte word after the other. A Go \<^verbatim>\<open>Word256\<close> is \<^verbatim>\<open>[32]byte\<close>; it is kept
  here as the list of its bytes, most significant first, exactly as they lie in the
  buffer. A \<^verbatim>\<open>PermFlag\<close> is a \<^verbatim>\<open>uint64\<close>.
\<close>

type_synonym byte = "8 word"
type_synonym Word256 = "byte list"
type_synonym PermFlag = "64 word"

text \<open>
  The constants \<^verbatim>\<open>TopBasePermFlag\<close>, \<^verbatim>\<open>FirstSNativePermFlag\<close>, \<^verbatim>\<open>TopSNativePermFlag\<close> and
  \<^verbatim>\<open>GlobalPermissionsAddress256\<close> are declared in package \<^verbatim>\<open>permission/types\<close>, whose
  file is not part of the sources at hand. Every function below that reads one of them
  takes them as a parameter.
\<close>

record perm_consts =
  TopBasePermFlag :: PermFlag
  FirstSNativePermFlag :: PermFlag
  TopSNativePermFlag :: PermFlag
  GlobalPermissionsAddress256 :: Word256

text \<open>
  Section 3 of the specification states the one relation between the constants that it
  relies on: \<^verbatim>\<open>TopBasePermFlag < FirstSNativePermFlag <= TopSNativePermFlag\<close>.
\<close>

definition consts_ordered :: "perm_consts \<Rightarrow> bool" where
  "consts_ordered c \<longleftrightarrow>
     TopBasePermFlag c < FirstSNativePermFlag c \<and>
     FirstSNativePermFlag c \<le> TopSNativePermFlag c"

text \<open>
  \<^verbatim>\<open>ValidPermN\<close> (snative.go, lines 215-222), branch for branch.
\<close>

definition ValidPermN :: "perm_consts \<Rightarrow> PermFlag \<Rightarrow> bool" where
  "ValidPermN c n =
     (if n > TopBasePermFlag c \<and> n < FirstSNativePermFlag c then False
      else if n > TopSNativePermFlag c then False
      else True)"

section \<open>Helpers of package common\<close>

text \<open>
  Modelled from the spec: \<^verbatim>\<open>Uint64FromWord256\<close>, \<^verbatim>\<open>LeftPadWord256\<close>, \<^verbatim>\<open>IsZero\<close> and
  \<^verbatim>\<open>Bytes\<close> belong to package \<^verbatim>\<open>common\<close>, which is not among the sources. The
  specification (sections 3 and 4.4) says that a word carrying a small integer or a
  single-byte boolean is left-padded, so the value sits in the low-order bytes at the
  end of the word, and that a boolean argument is true when the word is non-zero.
  \<^verbatim>\<open>Uint64FromWord256\<close> therefore reads the last eight bytes as a big-endian number,
  \<^verbatim>\<open>LeftPadWord256\<close> puts zero bytes in front, \<^verbatim>\<open>IsZero\<close> holds when every byte is zero,
  and \<^verbatim>\<open>Bytes\<close> hands out the 32 bytes unchanged.
\<close>

definition Uint64FromWord256 :: "Word256 \<Rightarrow> PermFlag" where
  "Uint64FromWord256 w = foldl (\<lambda>acc b. push_bit 8 acc OR ucast b) 0 (drop 24 w)"

definition LeftPadWord256 :: "byte list \<Rightarrow> Word256" where
  "LeftPadWord256 bz = replicate (32 - length bz) 0 @ bz"

definition IsZero :: "Word256 \<Rightarrow> bool" where
  "IsZero w = list_all (\<lambda>b. b = 0) w"

definition Bytes :: "Word256 \<Rightarrow> byte list" where
  "Bytes w = w"

text \<open>
  The number that the 32 bytes of a word spell out, most significant byte first. It is
  not part of the program; it says what ``the low 64 bits of a word'' means.
\<close>

definition Word256_value :: "Word256 \<Rightarrow> nat" where
  "Word256_value w = foldl (\<lambda>a b. a * 256 + unat b) 0 w"

section \<open>Accounts and their permissions\<close>

text \<open>
  Modelled from the spec: the types \<^verbatim>\<open>BasePermissions\<close> and \<^verbatim>\<open>AccountPermissions\<close> of
  package \<^verbatim>\<open>permission/types\<close> and the \<^verbatim>\<open>Account\<close> of package \<^verbatim>\<open>vm\<close> are not among
  the sources. Section 3 of the specification describes the base permissions as a bitset
  with a parallel mask of the flags that were set explicitly, and the roles as a set of
  role names. A role name is the string made of the 32 bytes of a word. Of an account
  only the address and the permissions matter to the native contracts.
\<close>

record BasePermissions =
  Perms :: PermFlag
  SetBit :: PermFlag

record AccountPermissions =
  Base :: BasePermissions
  Roles :: "byte list set"

record Account =
  Address :: Word256
  Permissions :: AccountPermissions

text \<open>
  What an executable can return as its error. \<^verbatim>\<open>UnknownAccount addr\<close> stands for
  \<^verbatim>\<open>fmt.Errorf("Unknown account %X", addr)\<close>. \<^verbatim>\<open>ptypes_ErrInvalidPermission n\<close> stands
  for \<^verbatim>\<open>ptypes.ErrInvalidPermission(permN)\<close>: at each of its call sites the flag is the
  only argument. \<^verbatim>\<open>ErrInvalidPermission\<close> is the struct of snative.go (lines 205-208),
  with its fields \<^verbatim>\<open>Address\<close> and \<^verbatim>\<open>SNative\<close>. The last two are Go panics:
  \<^verbatim>\<open>PanicSanity\<close> with its message, and the run-time panic of slicing a buffer that is
  too short.
\<close>

datatype error =
    UnknownAccount Word256
  | ptypes_ErrInvalidPermission PermFlag
  | ErrInvalidPermission Word256 string
  | PanicSanity string
  | PanicSliceBounds

text \<open>
  Modelled from the spec: the methods \<^verbatim>\<open>Set\<close> and \<^verbatim>\<open>Unset\<close> of \<^verbatim>\<open>BasePermissions\<close> are
  not among the sources. By section 3 each of them fails if the flag is not one the base
  permission mechanism recognises, and by section 4.4 this can happen to a flag that
  passed the range check. The comment at line 79 of snative.go says that a flag comes
  already shifted, that is as a bit mask; the flag the mechanism cannot recognise is
  the empty mask 0, and the error is the invalid-permission error of the same package.
  \<^verbatim>\<open>Set\<close> marks the flag as explicitly set and gives its bits the value; \<^verbatim>\<open>Unset\<close> takes
  the mark away.
\<close>

definition Base_Set :: "BasePermissions \<Rightarrow> PermFlag \<Rightarrow> bool \<Rightarrow> error + BasePermissions" where
  "Base_Set p ty v =
     (if ty = 0 then Inl (ptypes_ErrInvalidPermission ty)
      else Inr (p\<lparr>SetBit := SetBit p OR ty,
                  Perms := (if v then Perms p OR ty else Perms p AND NOT ty)\<rparr>))"

definition Base_Unset :: "BasePermissions \<Rightarrow> PermFlag \<Rightarrow> error + BasePermissions" where
  "Base_Unset p ty =
     (if ty = 0 then Inl (ptypes_ErrInvalidPermission ty)
      else Inr (p\<lparr>SetBit := SetBit p AND NOT ty\<rparr>))"

text \<open>
  Modelled from the spec: the methods \<^verbatim>\<open>HasRole\<close>, \<^verbatim>\<open>AddRole\<close> and \<^verbatim>\<open>RmRole\<close> of
  \<^verbatim>\<open>AccountPermissions\<close> are not among the sources. By section 3 adding a role that is
  present, or removing one that is absent, changes nothing and reports no change; the
  boolean tells whether the role set changed.
\<close>

definition Permissions_HasRole :: "AccountPermissions \<Rightarrow> byte list \<Rightarrow> bool" where
  "Permissions_HasRole aP role = (role \<in> Roles aP)"

definition Permissions_AddRole :: "AccountPermissions \<Rightarrow> byte list \<Rightarrow> bool \<times> AccountPermissions" where
  "Permissions_AddRole aP role =
     (if role \<in> Roles aP then (False, aP)
      else (True, aP\<lparr>Roles := insert role (Roles aP)\<rparr>))"

definition Permissions_RmRole :: "AccountPermissions \<Rightarrow> byte list \<Rightarrow> bool \<times> AccountPermissions" where
  "Permissions_RmRole aP role =
     (if role \<in> Roles aP then (True, aP\<lparr>Roles := Roles aP - {role}\<rparr>)
      else (False, aP))"

section \<open>The state accessor\<close>

text \<open>
  Modelled from the spec: \<^verbatim>\<open>AppState\<close> is an interface of package \<^verbatim>\<open>vm\<close> whose
  declaration and implementations are not among the sources. By section 6 it offers
  \<^verbatim>\<open>GetAccount(address)\<close>, which yields the account or nothing, and
  \<^verbatim>\<open>UpdateAccount(account)\<close>, which always succeeds; by section 3 an account is
  identified by its address. The store is the list of the accounts it holds:
  \<^verbatim>\<open>GetAccount\<close> yields the first account with the address asked for, and
  \<^verbatim>\<open>UpdateAccount\<close> puts the account in the place of the one with its address, or at
  the end when there is none. The field \<^verbatim>\<open>persisted\<close> is not part of the program: it
  records every call of \<^verbatim>\<open>UpdateAccount\<close> with its argument, in order, so that theorems
  can speak about the calls that were made.

  In Go \<^verbatim>\<open>GetAccount\<close> returns a pointer and the executables change the account behind
  it before they call \<^verbatim>\<open>UpdateAccount\<close>. Every such change in snative.go is followed
  by \<^verbatim>\<open>UpdateAccount\<close> of the same account on the same path, so an accessor that hands
  out copies and one that hands out the stored object show the same accounts afterwards;
  the model works on a copy.
\<close>

record AppState =
  accounts :: "Account list"
  persisted :: "Account list"

definition GetAccount :: "AppState \<Rightarrow> Word256 \<Rightarrow> Account option" where
  "GetAccount appState addr = find (\<lambda>a. Address a = addr) (accounts appState)"

fun store_account :: "Account \<Rightarrow> Account list \<Rightarrow> Account list" where
  "store_account acc [] = [acc]"
| "store_account acc (a # as) =
     (if Address a = Address acc then acc # as else a # store_account acc as)"

definition UpdateAccount :: "AppState \<Rightarrow> Account \<Rightarrow> AppState" where
  "UpdateAccount appState acc =
     appState\<lparr>accounts := store_account acc (accounts appState),
               persisted := persisted appState @ [acc]\<rparr>"

text \<open>
  Modelled from the spec: \<^verbatim>\<open>HasPermission\<close> is a function of package \<^verbatim>\<open>vm\<close> that is not
  among the sources. The specification (section 4.4, HasBase) gives its result as
  ``account has base permission set''; section 3 gives every account a mask of the flags
  that were set explicitly and calls the base permissions of the global account
  chain-wide default values. For a flag that is explicitly set on the account the answer
  is whether its bits are on. For a flag that is not, the specification does not say how
  the answer is found, and the function is handed the whole state: that answer is the
  parameter \<^verbatim>\<open>dflt\<close>, which may depend on everything \<^verbatim>\<open>HasPermission\<close> receives.
\<close>

type_synonym unset_default = "AppState \<Rightarrow> Account \<Rightarrow> PermFlag \<Rightarrow> bool"

definition HasPermission :: "unset_default \<Rightarrow> AppState \<Rightarrow> Account \<Rightarrow> PermFlag \<Rightarrow> bool" where
  "HasPermission dflt appState acc perm =
     (if SetBit (Base (Permissions acc)) AND perm = 0 then dflt appState acc perm
      else Perms (Base (Permissions acc)) AND perm \<noteq> 0)"

section \<open>Argument decoding\<close>

text \<open>
  \<^verbatim>\<open>returnTwoArgs\<close> and \<^verbatim>\<open>returnThreeArgs\<close> (snative.go, lines 224-237) copy the words at
  offsets 0, 32 and 64. Their contract is that the length has been checked; on a shorter
  buffer the slice expressions panic, which is the value \<^verbatim>\<open>None\<close> here.
\<close>

definition returnTwoArgs :: "byte list \<Rightarrow> (Word256 \<times> Word256) option" where
  "returnTwoArgs args =
     (if length args < 64 then None
      else Some (take 32 args, take 32 (drop 32 args)))"

definition returnThreeArgs :: "byte list \<Rightarrow> (Word256 \<times> Word256 \<times> Word256) option" where
  "returnThreeArgs args =
     (if length args < 96 then None
      else Some (take 32 args, take 32 (drop 32 args), take 32 (drop 64 args)))"

section \<open>The seven executables\<close>

text \<open>
  Each executable takes the state and the argument bytes and returns the output or the
  error, together with the state it leaves behind. The calls of \<^verbatim>\<open>dbg.Printf\<close> only
  print and are left out.
\<close>

type_synonym result = "(error + byte list) \<times> AppState"

definition hasBasePerm :: "unset_default \<Rightarrow> perm_consts \<Rightarrow> AppState \<Rightarrow> byte list \<Rightarrow> result" where
  "hasBasePerm dflt c appState args =
     (case returnTwoArgs args of
        None \<Rightarrow> (Inl PanicSliceBounds, appState)
      | Some (addr, permNum) \<Rightarrow>
          (case GetAccount appState addr of
             None \<Rightarrow> (Inl (UnknownAccount addr), appState)
           | Some vmAcc \<Rightarrow>
               (let permN = Uint64FromWord256 permNum in
                if \<not> ValidPermN c permN then (Inl (ptypes_ErrInvalidPermission permN), appState)
                else
                  (let permInt = (if HasPermission dflt appState vmAcc permN then 1 else 0)
                   in (Inr (Bytes (LeftPadWord256 [permInt])), appState)))))"

definition setBasePerm :: "perm_consts \<Rightarrow> AppState \<Rightarrow> byte list \<Rightarrow> result" where
  "setBasePerm c appState args =
     (case returnThreeArgs args of
        None \<Rightarrow> (Inl PanicSliceBounds, appState)
      | Some (addr, permNum, perm) \<Rightarrow>
          (case GetAccount appState addr of
             None \<Rightarrow> (Inl (UnknownAccount addr), appState)
           | Some vmAcc \<Rightarrow>
               (let permN = Uint64FromWord256 permNum in
                if \<not> ValidPermN c permN then (Inl (ptypes_ErrInvalidPermission permN), appState)
                else
                  (let permV = \<not> IsZero perm in
                   case Base_Set (Base (Permissions vmAcc)) permN permV of
                     Inl err \<Rightarrow> (Inl err, appState)
                   | Inr b \<Rightarrow>
                       (Inr (Bytes perm),
                        UpdateAccount appState
                          (vmAcc\<lparr>Permissions := (Permissions vmAcc)\<lparr>Base := b\<rparr>\<rparr>))))))"

definition unsetBasePerm :: "perm_consts \<Rightarrow> AppState \<Rightarrow> byte list \<Rightarrow> result" where
  "unsetBasePerm c appState args =
     (case returnTwoArgs args of
        None \<Rightarrow> (Inl PanicSliceBounds, appState)
      | Some (addr, permNum) \<Rightarrow>
          (case GetAccount appState addr of
             None \<Rightarrow> (Inl (UnknownAccount addr), appState)
           | Some vmAcc \<Rightarrow>
               (let permN = Uint64FromWord256 permNum in
                if \<not> ValidPermN c permN then (Inl (ptypes_ErrInvalidPermission permN), appState)
                else
                  (case Base_Unset (Base (Permissions vmAcc)) permN of
                     Inl err \<Rightarrow> (Inl err, appState)
                   | Inr b \<Rightarrow>
                       (Inr (Bytes permNum),
                        UpdateAccount appState
                          (vmAcc\<lparr>Permissions := (Permissions vmAcc)\<lparr>Base := b\<rparr>\<rparr>))))))"

definition setGlobalPerm :: "perm_consts \<Rightarrow> AppState \<Rightarrow> byte list \<Rightarrow> result" where
  "setGlobalPerm c appState args =
     (case returnTwoArgs args of
        None \<Rightarrow> (Inl PanicSliceBounds, appState)
      | Some (permNum, perm) \<Rightarrow>
          (case GetAccount appState (GlobalPermissionsAddress256 c) of
             None \<Rightarrow> (Inl (PanicSanity ''cant find the global permissions account''), appState)
           | Some vmAcc \<Rightarrow>
               (let permN = Uint64FromWord256 permNum in
                if \<not> ValidPermN c permN then (Inl (ptypes_ErrInvalidPermission permN), appState)
                else
                  (let permV = \<not> IsZero perm in
                   case Base_Set (Base (Permissions vmAcc)) permN permV of
                     Inl err \<Rightarrow> (Inl err, appState)
                   | Inr b \<Rightarrow>
                       (Inr (Bytes perm),
                        UpdateAccount appState
                          (vmAcc\<lparr>Permissions := (Permissions vmAcc)\<lparr>Base := b\<rparr>\<rparr>))))))"

definition hasRole :: "AppState \<Rightarrow> byte list \<Rightarrow> result" where
  "hasRole appState args =
     (case returnTwoArgs args of
        None \<Rightarrow> (Inl PanicSliceBounds, appState)
      | Some (addr, role) \<Rightarrow>
          (case GetAccount appState addr of
             None \<Rightarrow> (Inl (UnknownAccount addr), appState)
           | Some vmAcc \<Rightarrow>
               (let roleS = Bytes role;
                    permInt = (if Permissions_HasRole (Permissions vmAcc) roleS then 1 else 0)
                in (Inr (Bytes (LeftPadWord256 [permInt])), appState))))"

definition addRole :: "AppState \<Rightarrow> byte list \<Rightarrow> result" where
  "addRole appState args =
     (case returnTwoArgs args of
        None \<Rightarrow> (Inl PanicSliceBounds, appState)
      | Some (addr, role) \<Rightarrow>
          (case GetAccount appState addr of
             None \<Rightarrow> (Inl (UnknownAccount addr), appState)
           | Some vmAcc \<Rightarrow>
               (let roleS = Bytes role;
                    (added, aP) = Permissions_AddRole (Permissions vmAcc) roleS;
                    permInt = (if added then 1 else 0)
                in (Inr (Bytes (LeftPadWord256 [permInt])),
                    UpdateAccount appState (vmAcc\<lparr>Permissions := aP\<rparr>)))))"

definition rmRole :: "AppState \<Rightarrow> byte list \<Rightarrow> result" where
  "rmRole appState args =
     (case returnTwoArgs args of
        None \<Rightarrow> (Inl PanicSliceBounds, appState)
      | Some (addr, role) \<Rightarrow>
          (case GetAccount appState addr of
             None \<Rightarrow> (Inl (UnknownAccount addr), appState)
           | Some vmAcc \<Rightarrow>
               (let roleS = Bytes role;
                    (removed, aP) = Permissions_RmRole (Permissions vmAcc) roleS;
                    permInt = (if removed then 1 else 0)
                in (Inr (Bytes (LeftPadWord256 [permInt])),
                    UpdateAccount appState (vmAcc\<lparr>Permissions := aP\<rparr>)))))"

section \<open>A concrete chain state\<close>

text \<open>
  Concrete inputs on which the theorems below are exercised. The constants have the
  base flags in the low bits up to \<^verbatim>\<open>1 << 6\<close> and the native flags from \<^verbatim>\<open>1 << 32\<close> to
  \<^verbatim>\<open>1 << 38\<close>; the global permissions account lives at the zero address. The state holds
  the global account, an account at \<^verbatim>\<open>0xAA..AA\<close> with no permissions and no roles, and an
  account at \<^verbatim>\<open>0xBB..BB\<close> with one role.
\<close>

definition example_consts :: perm_consts where
  "example_consts =
     \<lparr>TopBasePermFlag = 64, FirstSNativePermFlag = 4294967296,
      TopSNativePermFlag = 274877906944,
      GlobalPermissionsAddress256 = replicate 32 0\<rparr>"

text \<open>
  Two ways of answering for a flag that is not explicitly set on the account: it is not
  held, or it takes the value the global account has for it.
\<close>

definition no_default :: unset_default where
  "no_default appState acc perm = False"

definition global_default :: "perm_consts \<Rightarrow> unset_default" where
  "global_default c appState acc perm =
     (case GetAccount appState (GlobalPermissionsAddress256 c) of
        None \<Rightarrow> False
      | Some g \<Rightarrow> SetBit (Base (Permissions g)) AND perm \<noteq> 0 \<and>
                  Perms (Base (Permissions g)) AND perm \<noteq> 0)"

definition word_of_byte :: "byte \<Rightarrow> Word256" where
  "word_of_byte b = replicate 31 0 @ [b]"

definition addr_A :: Word256 where
  "addr_A = replicate 32 170"

definition addr_B :: Word256 where
  "addr_B = replicate 32 187"

definition addr_C :: Word256 where
  "addr_C = replicate 32 204"

definition role_auditor :: Word256 where
  "role_auditor = [97, 117, 100, 105, 116, 111, 114] @ replicate 25 0"

definition role_admin :: Word256 where
  "role_admin = [97, 100, 109, 105, 110] @ replicate 27 0"

text \<open>
  Two words that are not in the usual left-padded form: the flag 4 with a byte set above
  the low eight, and a word whose only non-zero byte is the first.
\<close>

definition flag4_with_high_bytes :: Word256 where
  "flag4_with_high_bytes = [1] @ replicate 30 0 @ [4]"

definition high_byte_only :: Word256 where
  "high_byte_only = [1] @ replicate 31 0"

definition no_permissions :: AccountPermissions where
  "no_permissions = \<lparr>Base = \<lparr>Perms = 0, SetBit = 0\<rparr>, Roles = {}\<rparr>"

definition example_state :: AppState where
  "example_state =
     \<lparr>accounts =
        [\<lparr>Address = replicate 32 0, Permissions = no_permissions\<rparr>,
         \<lparr>Address = addr_A, Permissions = no_permissions\<rparr>,
         \<lparr>Address = addr_B, Permissions = no_permissions\<lparr>Roles := {role_auditor}\<rparr>\<rparr>],
      persisted = []\<rparr>"

section \<open>Facts about the state accessor\<close>

lemma find_Address: "find (\<lambda>a. Address a = addr) xs = Some acc \<Longrightarrow> Address acc = addr"
  by (induction xs) (auto split: if_splits)

lemma GetAccount_Address: "GetAccount st addr = Some acc \<Longrightarrow> Address acc = addr"
  unfolding GetAccount_def by (rule find_Address)

lemma find_store_account:
  "find (\<lambda>a. Address a = addr) (store_account acc xs) =
     (if addr = Address acc then Some acc else find (\<lambda>a. Address a = addr) xs)"
  by (induction xs) auto

lemma GetAccount_UpdateAccount:
  "GetAccount (UpdateAccount st acc) addr =
     (if addr = Address acc then Some acc else GetAccount st addr)"
  by (simp add: GetAccount_def UpdateAccount_def find_store_account)

lemma persisted_UpdateAccount: "persisted (UpdateAccount st acc) = persisted st @ [acc]"
  by (simp add: UpdateAccount_def)

section \<open>Facts about words and base permissions\<close>

lemma encoded_bool: "Bytes (LeftPadWord256 [b]) = replicate 31 0 @ [b]"
  by (simp add: Bytes_def LeftPadWord256_def)

lemma IsZero_iff: "IsZero v \<longleftrightarrow> (\<forall>b \<in> set v. b = 0)"
  by (simp add: IsZero_def list_all_iff)

lemma Uint64FromWord256_low_bytes:
  "drop 24 wa = drop 24 wb \<Longrightarrow> Uint64FromWord256 wa = Uint64FromWord256 wb"
  by (simp add: Uint64FromWord256_def)

lemma shift_or_byte: "push_bit 8 (x :: PermFlag) OR ucast (b :: byte) = x * 256 + ucast b"
proof -
  have "push_bit 8 x + ucast b = push_bit 8 x OR ucast b"
    by (rule disjunctive_add) (auto simp: bit_push_bit_iff bit_ucast_iff dest: bit_imp_le_length)
  then show ?thesis
    by (simp add: push_bit_eq_mult)
qed

lemma foldl_bytes_word:
  "foldl (\<lambda>acc b. push_bit 8 acc OR ucast b) (word_of_nat a :: PermFlag) (xs :: byte list)
     = word_of_nat (foldl (\<lambda>a b. a * 256 + unat b) a xs)"
proof (induction xs arbitrary: a)
  case Nil
  show ?case by simp
next
  case (Cons x xs)
  have "push_bit 8 (word_of_nat a :: PermFlag) OR ucast x = word_of_nat (a * 256 + unat x)"
    by (simp add: shift_or_byte)
  then show ?case
    using Cons.IH [of "a * 256 + unat x"] by simp
qed

lemma foldl_bytes_shift:
  "foldl (\<lambda>a b. a * 256 + unat b) a (ys :: byte list)
     = a * 256 ^ length ys + foldl (\<lambda>a b. a * 256 + unat b) 0 ys"
proof (induction ys arbitrary: a)
  case Nil
  show ?case by simp
next
  case (Cons y ys)
  show ?case
    using Cons.IH [of "a * 256 + unat y"] Cons.IH [of "unat y"]
    by (simp add: algebra_simps)
qed

lemma Uint64FromWord256_value:
  assumes "length w = 32"
  shows "unat (Uint64FromWord256 w) = Word256_value w mod 2 ^ 64"
proof -
  let ?f = "\<lambda>a (b :: byte). a * 256 + unat b"
  have len: "length (drop 24 w) = 8"
    using assms by simp
  have "Word256_value w = foldl ?f (foldl ?f 0 (take 24 w)) (drop 24 w)"
    unfolding Word256_value_def by (subst append_take_drop_id [of 24 w, symmetric]) (simp only: foldl_append)
  also have "\<dots> = foldl ?f 0 (take 24 w) * 256 ^ 8 + foldl ?f 0 (drop 24 w)"
    using foldl_bytes_shift [of "foldl ?f 0 (take 24 w)" "drop 24 w"] by (simp only: len)
  finally have v: "Word256_value w mod 2 ^ 64 = foldl ?f 0 (drop 24 w) mod 2 ^ 64"
    by simp
  have "Uint64FromWord256 w = word_of_nat (foldl ?f 0 (drop 24 w))"
    unfolding Uint64FromWord256_def using foldl_bytes_word [of 0 "drop 24 w"] by simp
  then have "unat (Uint64FromWord256 w) = foldl ?f 0 (drop 24 w) mod 2 ^ 64"
    by (simp add: unat_of_nat)
  with v show ?thesis by simp
qed

lemma or_and_same: "(p OR f) AND f = (f :: PermFlag)"
  by (simp add: bit_eq_iff bit_and_iff bit_or_iff)

lemma andnot_and_same: "(p AND NOT f) AND f = (0 :: PermFlag)"
  by (simp add: and.assoc)

lemma Base_Set_fields:
  assumes "Base_Set b f v = Inr b'"
  shows "f \<noteq> 0" and "SetBit b' AND f = f" and "Perms b' AND f = (if v then f else 0)"
  using assms by (auto simp: Base_Set_def or_and_same andnot_and_same split: if_splits)

lemma HasPermission_after_Set:
  assumes "Base_Set b f v = Inr b'" and "Base (Permissions acc) = b'"
  shows "HasPermission d st acc f = v"
  using Base_Set_fields [OF assms(1)] assms(2) by (simp add: HasPermission_def)

section \<open>The executables, path by path\<close>

text \<open>
  Once the arguments are decoded, each executable is determined by whether the account
  is there. These equations unfold one executable each and are used throughout.
\<close>

lemma hasBasePerm_unknown:
  "returnTwoArgs args = Some (addr, w) \<Longrightarrow> GetAccount st addr = None \<Longrightarrow>
   hasBasePerm d c st args = (Inl (UnknownAccount addr), st)"
  by (simp add: hasBasePerm_def)

lemma hasBasePerm_known:
  "returnTwoArgs args = Some (addr, w) \<Longrightarrow> GetAccount st addr = Some acc \<Longrightarrow>
   hasBasePerm d c st args =
     (if \<not> ValidPermN c (Uint64FromWord256 w)
      then (Inl (ptypes_ErrInvalidPermission (Uint64FromWord256 w)), st)
      else (Inr (Bytes (LeftPadWord256 [if HasPermission d st acc (Uint64FromWord256 w) then 1 else 0])), st))"
  by (simp add: hasBasePerm_def Let_def)

lemma setBasePerm_unknown:
  "returnThreeArgs args = Some (addr, w, v) \<Longrightarrow> GetAccount st addr = None \<Longrightarrow>
   setBasePerm c st args = (Inl (UnknownAccount addr), st)"
  by (simp add: setBasePerm_def)

lemma setBasePerm_known:
  "returnThreeArgs args = Some (addr, w, v) \<Longrightarrow> GetAccount st addr = Some acc \<Longrightarrow>
   setBasePerm c st args =
     (if \<not> ValidPermN c (Uint64FromWord256 w)
      then (Inl (ptypes_ErrInvalidPermission (Uint64FromWord256 w)), st)
      else (case Base_Set (Base (Permissions acc)) (Uint64FromWord256 w) (\<not> IsZero v) of
              Inl err \<Rightarrow> (Inl err, st)
            | Inr b \<Rightarrow> (Inr (Bytes v),
                        UpdateAccount st (acc\<lparr>Permissions := (Permissions acc)\<lparr>Base := b\<rparr>\<rparr>))))"
  by (simp add: setBasePerm_def Let_def)

lemma unsetBasePerm_unknown:
  "returnTwoArgs args = Some (addr, w) \<Longrightarrow> GetAccount st addr = None \<Longrightarrow>
   unsetBasePerm c st args = (Inl (UnknownAccount addr), st)"
  by (simp add: unsetBasePerm_def)

lemma unsetBasePerm_known:
  "returnTwoArgs args = Some (addr, w) \<Longrightarrow> GetAccount st addr = Some acc \<Longrightarrow>
   unsetBasePerm c st args =
     (if \<not> ValidPermN c (Uint64FromWord256 w)
      then (Inl (ptypes_ErrInvalidPermission (Uint64FromWord256 w)), st)
      else (case Base_Unset (Base (Permissions acc)) (Uint64FromWord256 w) of
              Inl err \<Rightarrow> (Inl err, st)
            | Inr b \<Rightarrow> (Inr (Bytes w),
                        UpdateAccount st (acc\<lparr>Permissions := (Permissions acc)\<lparr>Base := b\<rparr>\<rparr>))))"
  by (simp add: unsetBasePerm_def Let_def)

lemma setGlobalPerm_absent:
  "returnTwoArgs args = Some (w, v) \<Longrightarrow> GetAccount st (GlobalPermissionsAddress256 c) = None \<Longrightarrow>
   setGlobalPerm c st args = (Inl (PanicSanity ''cant find the global permissions account''), st)"
  by (simp add: setGlobalPerm_def)

lemma setGlobalPerm_present:
  "returnTwoArgs args = Some (w, v) \<Longrightarrow> GetAccount st (GlobalPermissionsAddress256 c) = Some acc \<Longrightarrow>
   setGlobalPerm c st args =
     (if \<not> ValidPermN c (Uint64FromWord256 w)
      then (Inl (ptypes_ErrInvalidPermission (Uint64FromWord256 w)), st)
      else (case Base_Set (Base (Permissions acc)) (Uint64FromWord256 w) (\<not> IsZero v) of
              Inl err \<Rightarrow> (Inl err, st)
            | Inr b \<Rightarrow> (Inr (Bytes v),
                        UpdateAccount st (acc\<lparr>Permissions := (Permissions acc)\<lparr>Base := b\<rparr>\<rparr>))))"
  by (simp add: setGlobalPerm_def Let_def)

lemma hasRole_unknown:
  "returnTwoArgs args = Some (addr, role) \<Longrightarrow> GetAccount st addr = None \<Longrightarrow>
   hasRole st args = (Inl (UnknownAccount addr), st)"
  by (simp add: hasRole_def)

lemma hasRole_known:
  "returnTwoArgs args = Some (addr, role) \<Longrightarrow> GetAccount st addr = Some acc \<Longrightarrow>
   hasRole st args =
     (Inr (Bytes (LeftPadWord256 [if Permissions_HasRole (Permissions acc) (Bytes role) then 1 else 0])), st)"
  by (simp add: hasRole_def Let_def)

lemma addRole_unknown:
  "returnTwoArgs args = Some (addr, role) \<Longrightarrow> GetAccount st addr = None \<Longrightarrow>
   addRole st args = (Inl (UnknownAccount addr), st)"
  by (simp add: addRole_def)

lemma addRole_known:
  "returnTwoArgs args = Some (addr, role) \<Longrightarrow> GetAccount st addr = Some acc \<Longrightarrow>
   addRole st args =
     (Inr (Bytes (LeftPadWord256 [if fst (Permissions_AddRole (Permissions acc) (Bytes role)) then 1 else 0])),
      UpdateAccount st (acc\<lparr>Permissions := snd (Permissions_AddRole (Permissions acc) (Bytes role))\<rparr>))"
  by (simp add: addRole_def Let_def split: prod.splits)

lemma rmRole_unknown:
  "returnTwoArgs args = Some (addr, role) \<Longrightarrow> GetAccount st addr = None \<Longrightarrow>
   rmRole st args = (Inl (UnknownAccount addr), st)"
  by (simp add: rmRole_def)

lemma rmRole_known:
  "returnTwoArgs args = Some (addr, role) \<Longrightarrow> GetAccount st addr = Some acc \<Longrightarrow>
   rmRole st args =
     (Inr (Bytes (LeftPadWord256 [if fst (Permissions_RmRole (Permissions acc) (Bytes role)) then 1 else 0])),
      UpdateAccount st (acc\<lparr>Permissions := snd (Permissions_RmRole (Permissions acc) (Bytes role))\<rparr>))"
  by (simp add: rmRole_def Let_def split: prod.splits)

lemma hasBasePerm_error_state: "isl (fst (hasBasePerm d c st args)) \<Longrightarrow> snd (hasBasePerm d c st args) = st"
  by (auto simp: hasBasePerm_def Let_def split: option.splits)

lemma setBasePerm_error_state: "isl (fst (setBasePerm c st args)) \<Longrightarrow> snd (setBasePerm c st args) = st"
  by (auto simp: setBasePerm_def Let_def split: option.splits sum.splits if_splits)

lemma unsetBasePerm_error_state: "isl (fst (unsetBasePerm c st args)) \<Longrightarrow> snd (unsetBasePerm c st args) = st"
  by (auto simp: unsetBasePerm_def Let_def split: option.splits sum.splits if_splits)

lemma setGlobalPerm_error_state: "isl (fst (setGlobalPerm c st args)) \<Longrightarrow> snd (setGlobalPerm c st args) = st"
  by (auto simp: setGlobalPerm_def Let_def split: option.splits sum.splits if_splits)

lemma hasRole_error_state: "isl (fst (hasRole st args)) \<Longrightarrow> snd (hasRole st args) = st"
  by (auto simp: hasRole_def Let_def split: option.splits)

lemma addRole_error_state: "isl (fst (addRole st args)) \<Longrightarrow> snd (addRole st args) = st"
  by (auto simp: addRole_def Let_def split: option.splits prod.splits)

lemma rmRole_error_state: "isl (fst (rmRole st args)) \<Longrightarrow> snd (rmRole st args) = st"
  by (auto simp: rmRole_def Let_def split: option.splits prod.splits)

section \<open>The range of valid flags\<close>

text \<open>
  Claim C2. For constants in the order the specification gives them, \<^verbatim>\<open>ValidPermN n\<close> holds
  exactly when \<^verbatim>\<open>n\<close> lies in \<^verbatim>\<open>[0, TopBasePermFlag]\<close> or in
  \<^verbatim>\<open>[FirstSNativePermFlag, TopSNativePermFlag]\<close>; every flag strictly between the two
  ranges and every flag above \<^verbatim>\<open>TopSNativePermFlag\<close> is rejected. Flags are unsigned
  64-bit values, so there is no integer below zero to consider.
\<close>

theorem ValidPermN_iff_in_ranges:
  assumes "consts_ordered c"
  shows "(ValidPermN c n \<longleftrightarrow>
            (0 \<le> n \<and> n \<le> TopBasePermFlag c) \<or>
            (FirstSNativePermFlag c \<le> n \<and> n \<le> TopSNativePermFlag c))
         \<and> (TopBasePermFlag c < n \<and> n < FirstSNativePermFlag c \<longrightarrow> \<not> ValidPermN c n)
         \<and> (TopSNativePermFlag c < n \<longrightarrow> \<not> ValidPermN c n)"
  using assms unfolding consts_ordered_def ValidPermN_def by auto

theorem ValidPermN_iff_in_ranges_witness:
  "consts_ordered example_consts
   \<and> ValidPermN example_consts 5
   \<and> ValidPermN example_consts 4294967296
   \<and> \<not> ValidPermN example_consts 65
   \<and> \<not> ValidPermN example_consts 274877906945"
proof -
  have ord: "consts_ordered example_consts"
    by (simp add: consts_ordered_def example_consts_def)
  have a: "ValidPermN example_consts 5"
    using ValidPermN_iff_in_ranges [OF ord, of 5] by (simp add: example_consts_def)
  have b: "ValidPermN example_consts 4294967296"
    using ValidPermN_iff_in_ranges [OF ord, of 4294967296] by (simp add: example_consts_def)
  have c: "\<not> ValidPermN example_consts 65"
    using ValidPermN_iff_in_ranges [OF ord, of 65] by (simp add: example_consts_def)
  have d: "\<not> ValidPermN example_consts 274877906945"
    using ValidPermN_iff_in_ranges [OF ord, of 274877906945] by (simp add: example_consts_def)
  from ord a b c d show ?thesis by blast
qed

section \<open>No write without a passed validation\<close>

text \<open>
  Claim C1. For each of the seven executables: when the address resolves to no account
  (for \<^verbatim>\<open>setGlobalPerm\<close>, when the global account is missing) or the flag fails
  \<^verbatim>\<open>ValidPermN\<close>, the call ends in an error and returns the state it was given. The
  state carries the record of the \<^verbatim>\<open>UpdateAccount\<close> calls, so an unchanged state means
  that no such call was made and that every later \<^verbatim>\<open>GetAccount\<close> answers as before. The
  last seven lines say that any call that ends in an error, whatever the reason, returns
  the state unchanged: a write is only ever made by a call that succeeds.
\<close>

theorem failed_validation_leaves_state:
  "(returnTwoArgs argsH = Some (addr, w) \<and>
      (GetAccount st addr = None \<or> \<not> ValidPermN c (Uint64FromWord256 w)) \<longrightarrow>
        isl (fst (hasBasePerm d c st argsH)) \<and> snd (hasBasePerm d c st argsH) = st \<and>
        isl (fst (unsetBasePerm c st argsH)) \<and> snd (unsetBasePerm c st argsH) = st)
   \<and> (returnThreeArgs argsS = Some (addrS, wS, vS) \<and>
      (GetAccount st addrS = None \<or> \<not> ValidPermN c (Uint64FromWord256 wS)) \<longrightarrow>
        isl (fst (setBasePerm c st argsS)) \<and> snd (setBasePerm c st argsS) = st)
   \<and> (returnTwoArgs argsG = Some (wG, vG) \<and>
      (GetAccount st (GlobalPermissionsAddress256 c) = None \<or>
       \<not> ValidPermN c (Uint64FromWord256 wG)) \<longrightarrow>
        isl (fst (setGlobalPerm c st argsG)) \<and> snd (setGlobalPerm c st argsG) = st)
   \<and> (returnTwoArgs argsR = Some (addrR, role) \<and> GetAccount st addrR = None \<longrightarrow>
        isl (fst (hasRole st argsR)) \<and> snd (hasRole st argsR) = st \<and>
        isl (fst (addRole st argsR)) \<and> snd (addRole st argsR) = st \<and>
        isl (fst (rmRole st argsR)) \<and> snd (rmRole st argsR) = st)
   \<and> (isl (fst (hasBasePerm d c st args)) \<longrightarrow> snd (hasBasePerm d c st args) = st)
   \<and> (isl (fst (setBasePerm c st args)) \<longrightarrow> snd (setBasePerm c st args) = st)
   \<and> (isl (fst (unsetBasePerm c st args)) \<longrightarrow> snd (unsetBasePerm c st args) = st)
   \<and> (isl (fst (setGlobalPerm c st args)) \<longrightarrow> snd (setGlobalPerm c st args) = st)
   \<and> (isl (fst (hasRole st args)) \<longrightarrow> snd (hasRole st args) = st)
   \<and> (isl (fst (addRole st args)) \<longrightarrow> snd (addRole st args) = st)
   \<and> (isl (fst (rmRole st args)) \<longrightarrow> snd (rmRole st args) = st)"
proof -
  have hb: "isl (fst (hasBasePerm d c st argsH)) \<and> snd (hasBasePerm d c st argsH) = st"
    if "returnTwoArgs argsH = Some (addr, w)"
       "GetAccount st addr = None \<or> \<not> ValidPermN c (Uint64FromWord256 w)"
    using that by (cases "GetAccount st addr") (auto simp: hasBasePerm_unknown hasBasePerm_known)
  have ub: "isl (fst (unsetBasePerm c st argsH)) \<and> snd (unsetBasePerm c st argsH) = st"
    if "returnTwoArgs argsH = Some (addr, w)"
       "GetAccount st addr = None \<or> \<not> ValidPermN c (Uint64FromWord256 w)"
    using that by (cases "GetAccount st addr") (auto simp: unsetBasePerm_unknown unsetBasePerm_known)
  have sb: "isl (fst (setBasePerm c st argsS)) \<and> snd (setBasePerm c st argsS) = st"
    if "returnThreeArgs argsS = Some (addrS, wS, vS)"
       "GetAccount st addrS = None \<or> \<not> ValidPermN c (Uint64FromWord256 wS)"
    using that by (cases "GetAccount st addrS") (auto simp: setBasePerm_unknown setBasePerm_known)
  have sg: "isl (fst (setGlobalPerm c st argsG)) \<and> snd (setGlobalPerm c st argsG) = st"
    if "returnTwoArgs argsG = Some (wG, vG)"
       "GetAccount st (GlobalPermissionsAddress256 c) = None \<or>
        \<not> ValidPermN c (Uint64FromWord256 wG)"
    using that by (cases "GetAccount st (GlobalPermissionsAddress256 c)")
      (auto simp: setGlobalPerm_absent setGlobalPerm_present)
  have ro: "isl (fst (hasRole st argsR)) \<and> snd (hasRole st argsR) = st \<and>
            isl (fst (addRole st argsR)) \<and> snd (addRole st argsR) = st \<and>
            isl (fst (rmRole st argsR)) \<and> snd (rmRole st argsR) = st"
    if "returnTwoArgs argsR = Some (addrR, role)" "GetAccount st addrR = None"
    using that by (simp add: hasRole_unknown addRole_unknown rmRole_unknown)
  show ?thesis
    using hb ub sb sg ro
      hasBasePerm_error_state [of d c st args] setBasePerm_error_state [of c st args]
      unsetBasePerm_error_state [of c st args] setGlobalPerm_error_state [of c st args]
      hasRole_error_state [of st args] addRole_error_state [of st args]
      rmRole_error_state [of st args]
    by blast
qed

text \<open>
  The theorem at work on the concrete state: an unknown address, a flag in the gap
  between the two ranges, and a flag (the empty mask) that passes the range check and is
  then turned down by \<^verbatim>\<open>Set\<close>.
\<close>

theorem failed_validation_leaves_state_witness:
  "snd (hasBasePerm no_default example_consts example_state (addr_C @ word_of_byte 65)) = example_state
   \<and> snd (unsetBasePerm example_consts example_state (addr_A @ word_of_byte 65)) = example_state
   \<and> snd (setBasePerm example_consts example_state (addr_A @ word_of_byte 65 @ word_of_byte 1))
        = example_state
   \<and> snd (setGlobalPerm example_consts example_state (word_of_byte 65 @ word_of_byte 1))
        = example_state
   \<and> snd (hasRole example_state (addr_C @ role_auditor)) = example_state
   \<and> snd (addRole example_state (addr_C @ role_auditor)) = example_state
   \<and> snd (rmRole example_state (addr_C @ role_auditor)) = example_state
   \<and> snd (setBasePerm example_consts example_state (addr_A @ word_of_byte 0 @ word_of_byte 1))
        = example_state"
proof -
  have a2: "returnTwoArgs (addr_C @ word_of_byte 65) = Some (addr_C, word_of_byte 65)"
    by code_simp
  have a2': "returnTwoArgs (addr_A @ word_of_byte 65) = Some (addr_A, word_of_byte 65)"
    by code_simp
  have a3: "returnThreeArgs (addr_A @ word_of_byte 65 @ word_of_byte 1)
              = Some (addr_A, word_of_byte 65, word_of_byte 1)"
    by code_simp
  have aG: "returnTwoArgs (word_of_byte 65 @ word_of_byte 1) = Some (word_of_byte 65, word_of_byte 1)"
    by code_simp
  have aR: "returnTwoArgs (addr_C @ role_auditor) = Some (addr_C, role_auditor)"
    by code_simp
  have unknown: "GetAccount example_state addr_C = None"
    by code_simp
  have invalid: "\<not> ValidPermN example_consts (Uint64FromWord256 (word_of_byte 65))"
    by code_simp
  have rejected: "isl (fst (setBasePerm example_consts example_state
                    (addr_A @ word_of_byte 0 @ word_of_byte 1)))"
    by code_simp
  note T1 = failed_validation_leaves_state
    [where argsH = "addr_C @ word_of_byte 65" and addr = addr_C and w = "word_of_byte 65"
       and argsS = "addr_A @ word_of_byte 65 @ word_of_byte 1" and addrS = addr_A
       and wS = "word_of_byte 65" and vS = "word_of_byte 1"
       and argsG = "word_of_byte 65 @ word_of_byte 1" and wG = "word_of_byte 65"
       and vG = "word_of_byte 1"
       and argsR = "addr_C @ role_auditor" and addrR = addr_C and role = role_auditor
       and args = "addr_A @ word_of_byte 0 @ word_of_byte 1"
       and st = example_state and c = example_consts and d = no_default]
  note T2 = failed_validation_leaves_state
    [where argsH = "addr_A @ word_of_byte 65" and addr = addr_A and w = "word_of_byte 65"
       and st = example_state and c = example_consts]
  from T1 T2 a2 a2' a3 aG aR unknown invalid rejected show ?thesis
    by blast
qed

section \<open>Which error comes first\<close>

text \<open>
  Claim C10. In \<^verbatim>\<open>hasBasePerm\<close>, \<^verbatim>\<open>setBasePerm\<close> and \<^verbatim>\<open>unsetBasePerm\<close> the account is looked
  up before the flag is checked: when the address resolves to no account and the flag is
  invalid as well, the call returns the unknown-account error with the address, not the
  invalid-permission error, and leaves the state as it was.
\<close>

theorem unknown_account_reported_first:
  "(returnTwoArgs argsH = Some (addr, w) \<and> GetAccount st addr = None \<and>
      \<not> ValidPermN c (Uint64FromWord256 w) \<longrightarrow>
        hasBasePerm d c st argsH = (Inl (UnknownAccount addr), st) \<and>
        unsetBasePerm c st argsH = (Inl (UnknownAccount addr), st))
   \<and> (returnThreeArgs argsS = Some (addrS, wS, vS) \<and> GetAccount st addrS = None \<and>
      \<not> ValidPermN c (Uint64FromWord256 wS) \<longrightarrow>
        setBasePerm c st argsS = (Inl (UnknownAccount addrS), st))"
  by (simp add: hasBasePerm_unknown unsetBasePerm_unknown setBasePerm_unknown)

theorem unknown_account_reported_first_witness:
  "hasBasePerm no_default example_consts example_state (addr_C @ word_of_byte 65)
     = (Inl (UnknownAccount addr_C), example_state)
   \<and> unsetBasePerm example_consts example_state (addr_C @ word_of_byte 65)
     = (Inl (UnknownAccount addr_C), example_state)
   \<and> setBasePerm example_consts example_state (addr_C @ word_of_byte 65 @ word_of_byte 1)
     = (Inl (UnknownAccount addr_C), example_state)"
proof -
  have a2: "returnTwoArgs (addr_C @ word_of_byte 65) = Some (addr_C, word_of_byte 65)"
    by code_simp
  have a3: "returnThreeArgs (addr_C @ word_of_byte 65 @ word_of_byte 1)
              = Some (addr_C, word_of_byte 65, word_of_byte 1)"
    by code_simp
  have unknown: "GetAccount example_state addr_C = None"
    by code_simp
  have invalid: "\<not> ValidPermN example_consts (Uint64FromWord256 (word_of_byte 65))"
    by code_simp
  from unknown_account_reported_first
    [where argsH = "addr_C @ word_of_byte 65" and addr = addr_C and w = "word_of_byte 65"
       and argsS = "addr_C @ word_of_byte 65 @ word_of_byte 1" and addrS = addr_C
       and wS = "word_of_byte 65" and vS = "word_of_byte 1"
       and st = example_state and c = example_consts and d = no_default]
    a2 a3 unknown invalid
  show ?thesis by blast
qed

section \<open>Role updates always persist\<close>

text \<open>
  Claim C7. Once the account exists, \<^verbatim>\<open>addRole\<close> and \<^verbatim>\<open>rmRole\<close> never fail, and the state
  they leave is the state after \<^verbatim>\<open>UpdateAccount\<close> of the account with the role operation
  applied, whether or not the role set changed: the account is written to the store and
  the call is recorded. Every call of either that does not end in an error is one
  \<^verbatim>\<open>UpdateAccount\<close> on the state it was given, and adds exactly one entry to the record
  of \<^verbatim>\<open>UpdateAccount\<close> calls.
\<close>

theorem role_update_always_persists:
  "(returnTwoArgs args = Some (addr, role) \<and> GetAccount st addr = Some acc \<longrightarrow>
      \<not> isl (fst (addRole st args)) \<and>
      snd (addRole st args) =
        UpdateAccount st
          (acc\<lparr>Permissions := snd (Permissions_AddRole (Permissions acc) (Bytes role))\<rparr>) \<and>
      persisted (snd (addRole st args)) =
        persisted st @ [acc\<lparr>Permissions := snd (Permissions_AddRole (Permissions acc) (Bytes role))\<rparr>] \<and>
      \<not> isl (fst (rmRole st args)) \<and>
      snd (rmRole st args) =
        UpdateAccount st
          (acc\<lparr>Permissions := snd (Permissions_RmRole (Permissions acc) (Bytes role))\<rparr>) \<and>
      persisted (snd (rmRole st args)) =
        persisted st @ [acc\<lparr>Permissions := snd (Permissions_RmRole (Permissions acc) (Bytes role))\<rparr>])
   \<and> (\<not> isl (fst (addRole st args)) \<longrightarrow>
        (\<exists>acc'. snd (addRole st args) = UpdateAccount st acc') \<and>
        length (persisted (snd (addRole st args))) = length (persisted st) + 1)
   \<and> (\<not> isl (fst (rmRole st args)) \<longrightarrow>
        (\<exists>acc'. snd (rmRole st args) = UpdateAccount st acc') \<and>
        length (persisted (snd (rmRole st args))) = length (persisted st) + 1)"
proof -
  have known: "\<not> isl (fst (addRole st args)) \<and>
      snd (addRole st args) =
        UpdateAccount st
          (acc\<lparr>Permissions := snd (Permissions_AddRole (Permissions acc) (Bytes role))\<rparr>) \<and>
      persisted (snd (addRole st args)) =
        persisted st @ [acc\<lparr>Permissions := snd (Permissions_AddRole (Permissions acc) (Bytes role))\<rparr>] \<and>
      \<not> isl (fst (rmRole st args)) \<and>
      snd (rmRole st args) =
        UpdateAccount st
          (acc\<lparr>Permissions := snd (Permissions_RmRole (Permissions acc) (Bytes role))\<rparr>) \<and>
      persisted (snd (rmRole st args)) =
        persisted st @ [acc\<lparr>Permissions := snd (Permissions_RmRole (Permissions acc) (Bytes role))\<rparr>]"
    if "returnTwoArgs args = Some (addr, role)" "GetAccount st addr = Some acc"
    using that by (simp add: addRole_known rmRole_known persisted_UpdateAccount)
  have add: "(\<exists>acc'. snd (addRole st args) = UpdateAccount st acc') \<and>
             length (persisted (snd (addRole st args))) = length (persisted st) + 1"
    if ok: "\<not> isl (fst (addRole st args))"
  proof -
    from ok obtain a r where args: "returnTwoArgs args = Some (a, r)"
      by (cases "returnTwoArgs args") (auto simp: addRole_def)
    from ok args obtain vmAcc where acc: "GetAccount st a = Some vmAcc"
      by (cases "GetAccount st a") (auto simp: addRole_unknown)
    have "snd (addRole st args) =
            UpdateAccount st
              (vmAcc\<lparr>Permissions := snd (Permissions_AddRole (Permissions vmAcc) (Bytes r))\<rparr>)"
      by (simp add: addRole_known [OF args acc])
    then show ?thesis
      by (auto simp: persisted_UpdateAccount)
  qed
  have rm: "(\<exists>acc'. snd (rmRole st args) = UpdateAccount st acc') \<and>
            length (persisted (snd (rmRole st args))) = length (persisted st) + 1"
    if ok: "\<not> isl (fst (rmRole st args))"
  proof -
    from ok obtain a r where args: "returnTwoArgs args = Some (a, r)"
      by (cases "returnTwoArgs args") (auto simp: rmRole_def)
    from ok args obtain vmAcc where acc: "GetAccount st a = Some vmAcc"
      by (cases "GetAccount st a") (auto simp: rmRole_unknown)
    have "snd (rmRole st args) =
            UpdateAccount st
              (vmAcc\<lparr>Permissions := snd (Permissions_RmRole (Permissions vmAcc) (Bytes r))\<rparr>)"
      by (simp add: rmRole_known [OF args acc])
    then show ?thesis
      by (auto simp: persisted_UpdateAccount)
  qed
  from known add rm show ?thesis by blast
qed

text \<open>
  On the concrete state: adding a role the account already has and removing one it does
  not have both report false and still write the unchanged account with
  \<^verbatim>\<open>UpdateAccount\<close>; adding a new role writes the account with the role in it, which the
  next \<^verbatim>\<open>GetAccount\<close> returns.
\<close>

theorem role_update_always_persists_witness:
  "fst (addRole example_state (addr_B @ role_auditor)) = Inr (replicate 31 0 @ [0])
   \<and> snd (addRole example_state (addr_B @ role_auditor))
       = UpdateAccount example_state
           \<lparr>Address = addr_B, Permissions = no_permissions\<lparr>Roles := {role_auditor}\<rparr>\<rparr>
   \<and> persisted (snd (addRole example_state (addr_B @ role_auditor)))
       = [\<lparr>Address = addr_B, Permissions = no_permissions\<lparr>Roles := {role_auditor}\<rparr>\<rparr>]
   \<and> fst (rmRole example_state (addr_B @ role_admin)) = Inr (replicate 31 0 @ [0])
   \<and> snd (rmRole example_state (addr_B @ role_admin))
       = UpdateAccount example_state
           \<lparr>Address = addr_B, Permissions = no_permissions\<lparr>Roles := {role_auditor}\<rparr>\<rparr>
   \<and> persisted (snd (rmRole example_state (addr_B @ role_admin)))
       = [\<lparr>Address = addr_B, Permissions = no_permissions\<lparr>Roles := {role_auditor}\<rparr>\<rparr>]
   \<and> snd (addRole example_state (addr_B @ role_admin))
       = UpdateAccount example_state
           \<lparr>Address = addr_B,
            Permissions = no_permissions\<lparr>Roles := {role_admin, role_auditor}\<rparr>\<rparr>
   \<and> GetAccount (snd (addRole example_state (addr_B @ role_admin))) addr_B
       = Some \<lparr>Address = addr_B,
               Permissions = no_permissions\<lparr>Roles := {role_admin, role_auditor}\<rparr>\<rparr>
   \<and> length (persisted (snd (addRole example_state (addr_A @ role_admin)))) = 1
   \<and> length (persisted (snd (rmRole example_state (addr_B @ role_auditor)))) = 1"
proof -
  let ?accB = "\<lparr>Address = addr_B, Permissions = no_permissions\<lparr>Roles := {role_auditor}\<rparr>\<rparr>"
  let ?accB2 = "\<lparr>Address = addr_B,
                 Permissions = no_permissions\<lparr>Roles := {role_admin, role_auditor}\<rparr>\<rparr>"
  have aa: "returnTwoArgs (addr_B @ role_auditor) = Some (addr_B, role_auditor)"
    by code_simp
  have ar: "returnTwoArgs (addr_B @ role_admin) = Some (addr_B, role_admin)"
    by code_simp
  have known: "GetAccount example_state addr_B = Some ?accB"
    by code_simp
  have p: "persisted example_state = []"
    by code_simp
  have noop_add: "?accB\<lparr>Permissions := snd (Permissions_AddRole (Permissions ?accB) (Bytes role_auditor))\<rparr>
                    = ?accB"
    by code_simp
  have noop_rm: "?accB\<lparr>Permissions := snd (Permissions_RmRole (Permissions ?accB) (Bytes role_admin))\<rparr>
                    = ?accB"
    by code_simp
  have new_add: "?accB\<lparr>Permissions := snd (Permissions_AddRole (Permissions ?accB) (Bytes role_admin))\<rparr>
                    = ?accB2"
    by code_simp
  have fa: "fst (addRole example_state (addr_B @ role_auditor)) = Inr (replicate 31 0 @ [0])"
    by code_simp
  have fr: "fst (rmRole example_state (addr_B @ role_admin)) = Inr (replicate 31 0 @ [0])"
    by code_simp
  have ok_add: "\<not> isl (fst (addRole example_state (addr_A @ role_admin)))"
    by code_simp
  have ok_rm: "\<not> isl (fst (rmRole example_state (addr_B @ role_auditor)))"
    by code_simp
  have get2: "GetAccount (UpdateAccount example_state ?accB2) addr_B = Some ?accB2"
    by (simp add: GetAccount_UpdateAccount)
  from role_update_always_persists
    [where args = "addr_B @ role_auditor" and addr = addr_B and role = role_auditor
       and acc = ?accB and st = example_state]
    aa known p noop_add
  have pa: "snd (addRole example_state (addr_B @ role_auditor)) = UpdateAccount example_state ?accB
            \<and> persisted (snd (addRole example_state (addr_B @ role_auditor))) = [?accB]"
    by (simp add: persisted_UpdateAccount)
  from role_update_always_persists
    [where args = "addr_B @ role_admin" and addr = addr_B and role = role_admin
       and acc = ?accB and st = example_state]
    ar known p noop_rm new_add
  have pr: "snd (rmRole example_state (addr_B @ role_admin)) = UpdateAccount example_state ?accB
            \<and> persisted (snd (rmRole example_state (addr_B @ role_admin))) = [?accB]
            \<and> snd (addRole example_state (addr_B @ role_admin)) = UpdateAccount example_state ?accB2"
    by (simp add: persisted_UpdateAccount)
  from pr get2
  have g: "GetAccount (snd (addRole example_state (addr_B @ role_admin))) addr_B = Some ?accB2"
    by simp
  from role_update_always_persists
    [where args = "addr_A @ role_admin" and st = example_state] ok_add p
  have la: "length (persisted (snd (addRole example_state (addr_A @ role_admin)))) = 1"
    by simp
  from role_update_always_persists
    [where args = "addr_B @ role_auditor" and st = example_state] ok_rm p
  have lr: "length (persisted (snd (rmRole example_state (addr_B @ role_auditor)))) = 1"
    by simp
  from fa pa fr pr g la lr show ?thesis by blast
qed

section \<open>The error for a rejected flag\<close>

text \<open>
  Claim C3 says that the error for a rejected flag carries the offending flag and the
  name of the contract that was invoked. The executables build the error from the flag
  alone, \<^verbatim>\<open>ptypes.ErrInvalidPermission(permN)\<close>; the struct \<^verbatim>\<open>ErrInvalidPermission\<close> of
  snative.go, which has a field for the native contract's name, is not what they return.
  As stated the claim fails: \<^verbatim>\<open>hasBasePerm\<close> and \<^verbatim>\<open>setBasePerm\<close>, given the same flag from
  the gap between the ranges, return one and the same error value, so nothing in it
  tells the two contracts apart.
\<close>

theorem rejected_flag_error_same_for_two_contracts:
  "fst (hasBasePerm no_default example_consts example_state (addr_A @ word_of_byte 65))
     = Inl (ptypes_ErrInvalidPermission 65)
   \<and> fst (setBasePerm example_consts example_state (addr_A @ word_of_byte 65 @ word_of_byte 1))
     = Inl (ptypes_ErrInvalidPermission 65)"
  by code_simp

text \<open>
  Claim C3, amended. Whenever one of the four executables that take a flag rejects it,
  because it is outside the valid ranges or because \<^verbatim>\<open>Set\<close> or \<^verbatim>\<open>Unset\<close> turns it down,
  the error is the invalid-permission error of the permission package holding the
  offending flag, the low 64 bits of the argument word, and nothing else. With the
  account present this is the only error these executables return.
\<close>

theorem rejected_flag_error_is_flag_only:
  "(returnTwoArgs argsH = Some (addr, w) \<and> GetAccount st addr = Some acc \<longrightarrow>
      (\<not> ValidPermN c (Uint64FromWord256 w) \<longrightarrow>
         fst (hasBasePerm d c st argsH) = Inl (ptypes_ErrInvalidPermission (Uint64FromWord256 w)) \<and>
         fst (unsetBasePerm c st argsH) = Inl (ptypes_ErrInvalidPermission (Uint64FromWord256 w))) \<and>
      (isl (fst (hasBasePerm d c st argsH)) \<longrightarrow>
         fst (hasBasePerm d c st argsH) = Inl (ptypes_ErrInvalidPermission (Uint64FromWord256 w))) \<and>
      (isl (fst (unsetBasePerm c st argsH)) \<longrightarrow>
         fst (unsetBasePerm c st argsH) = Inl (ptypes_ErrInvalidPermission (Uint64FromWord256 w))))
   \<and> (returnThreeArgs argsS = Some (addrS, wS, vS) \<and> GetAccount st addrS = Some accS \<longrightarrow>
      (\<not> ValidPermN c (Uint64FromWord256 wS) \<longrightarrow>
         fst (setBasePerm c st argsS) = Inl (ptypes_ErrInvalidPermission (Uint64FromWord256 wS))) \<and>
      (isl (fst (setBasePerm c st argsS)) \<longrightarrow>
         fst (setBasePerm c st argsS) = Inl (ptypes_ErrInvalidPermission (Uint64FromWord256 wS))))
   \<and> (returnTwoArgs argsG = Some (wG, vG) \<and>
      GetAccount st (GlobalPermissionsAddress256 c) = Some accG \<longrightarrow>
      (\<not> ValidPermN c (Uint64FromWord256 wG) \<longrightarrow>
         fst (setGlobalPerm c st argsG) = Inl (ptypes_ErrInvalidPermission (Uint64FromWord256 wG))) \<and>
      (isl (fst (setGlobalPerm c st argsG)) \<longrightarrow>
         fst (setGlobalPerm c st argsG) = Inl (ptypes_ErrInvalidPermission (Uint64FromWord256 wG))))"
proof -
  have H: "(\<not> ValidPermN c (Uint64FromWord256 w) \<longrightarrow>
         fst (hasBasePerm d c st argsH) = Inl (ptypes_ErrInvalidPermission (Uint64FromWord256 w)) \<and>
         fst (unsetBasePerm c st argsH) = Inl (ptypes_ErrInvalidPermission (Uint64FromWord256 w))) \<and>
      (isl (fst (hasBasePerm d c st argsH)) \<longrightarrow>
         fst (hasBasePerm d c st argsH) = Inl (ptypes_ErrInvalidPermission (Uint64FromWord256 w))) \<and>
      (isl (fst (unsetBasePerm c st argsH)) \<longrightarrow>
         fst (unsetBasePerm c st argsH) = Inl (ptypes_ErrInvalidPermission (Uint64FromWord256 w)))"
    if "returnTwoArgs argsH = Some (addr, w)" "GetAccount st addr = Some acc"
    by (auto simp: hasBasePerm_known [OF that] unsetBasePerm_known [OF that] Base_Unset_def
             split: if_splits)
  have S: "(\<not> ValidPermN c (Uint64FromWord256 wS) \<longrightarrow>
         fst (setBasePerm c st argsS) = Inl (ptypes_ErrInvalidPermission (Uint64FromWord256 wS))) \<and>
      (isl (fst (setBasePerm c st argsS)) \<longrightarrow>
         fst (setBasePerm c st argsS) = Inl (ptypes_ErrInvalidPermission (Uint64FromWord256 wS)))"
    if "returnThreeArgs argsS = Some (addrS, wS, vS)" "GetAccount st addrS = Some accS"
    by (auto simp: setBasePerm_known [OF that] Base_Set_def split: if_splits)
  have G: "(\<not> ValidPermN c (Uint64FromWord256 wG) \<longrightarrow>
         fst (setGlobalPerm c st argsG) = Inl (ptypes_ErrInvalidPermission (Uint64FromWord256 wG))) \<and>
      (isl (fst (setGlobalPerm c st argsG)) \<longrightarrow>
         fst (setGlobalPerm c st argsG) = Inl (ptypes_ErrInvalidPermission (Uint64FromWord256 wG)))"
    if "returnTwoArgs argsG = Some (wG, vG)"
       "GetAccount st (GlobalPermissionsAddress256 c) = Some accG"
    by (auto simp: setGlobalPerm_present [OF that] Base_Set_def split: if_splits)
  from H S G show ?thesis by blast
qed

theorem rejected_flag_error_is_flag_only_witness:
  "fst (hasBasePerm no_default example_consts example_state (addr_A @ word_of_byte 65))
     = Inl (ptypes_ErrInvalidPermission (Uint64FromWord256 (word_of_byte 65)))
   \<and> fst (unsetBasePerm example_consts example_state (addr_A @ word_of_byte 65))
     = Inl (ptypes_ErrInvalidPermission (Uint64FromWord256 (word_of_byte 65)))
   \<and> fst (setBasePerm example_consts example_state (addr_A @ word_of_byte 65 @ word_of_byte 1))
     = Inl (ptypes_ErrInvalidPermission (Uint64FromWord256 (word_of_byte 65)))
   \<and> fst (setGlobalPerm example_consts example_state (word_of_byte 65 @ word_of_byte 1))
     = Inl (ptypes_ErrInvalidPermission (Uint64FromWord256 (word_of_byte 65)))
   \<and> Uint64FromWord256 (word_of_byte 65) = 65
   \<and> fst (setBasePerm example_consts example_state (addr_A @ word_of_byte 0 @ word_of_byte 1))
     = Inl (ptypes_ErrInvalidPermission (Uint64FromWord256 (word_of_byte 0)))
   \<and> fst (unsetBasePerm example_consts example_state (addr_A @ word_of_byte 0))
     = Inl (ptypes_ErrInvalidPermission (Uint64FromWord256 (word_of_byte 0)))
   \<and> fst (setGlobalPerm example_consts example_state (word_of_byte 0 @ word_of_byte 1))
     = Inl (ptypes_ErrInvalidPermission (Uint64FromWord256 (word_of_byte 0)))"
proof -
  let ?accA = "\<lparr>Address = addr_A, Permissions = no_permissions\<rparr>"
  let ?accG = "\<lparr>Address = replicate 32 0, Permissions = no_permissions\<rparr>"
  have a2: "returnTwoArgs (addr_A @ word_of_byte 65) = Some (addr_A, word_of_byte 65)"
    by code_simp
  have a3: "returnThreeArgs (addr_A @ word_of_byte 65 @ word_of_byte 1)
              = Some (addr_A, word_of_byte 65, word_of_byte 1)"
    by code_simp
  have aG: "returnTwoArgs (word_of_byte 65 @ word_of_byte 1) = Some (word_of_byte 65, word_of_byte 1)"
    by code_simp
  have z2: "returnTwoArgs (addr_A @ word_of_byte 0) = Some (addr_A, word_of_byte 0)"
    by code_simp
  have z3: "returnThreeArgs (addr_A @ word_of_byte 0 @ word_of_byte 1)
              = Some (addr_A, word_of_byte 0, word_of_byte 1)"
    by code_simp
  have zG: "returnTwoArgs (word_of_byte 0 @ word_of_byte 1) = Some (word_of_byte 0, word_of_byte 1)"
    by code_simp
  have known: "GetAccount example_state addr_A = Some ?accA"
    by code_simp
  have global: "GetAccount example_state (GlobalPermissionsAddress256 example_consts) = Some ?accG"
    by code_simp
  have invalid: "\<not> ValidPermN example_consts (Uint64FromWord256 (word_of_byte 65))"
    by code_simp
  have val: "Uint64FromWord256 (word_of_byte 65) = 65"
    by code_simp
  have rej_set: "isl (fst (setBasePerm example_consts example_state
                   (addr_A @ word_of_byte 0 @ word_of_byte 1)))"
    by code_simp
  have rej_unset: "isl (fst (unsetBasePerm example_consts example_state (addr_A @ word_of_byte 0)))"
    by code_simp
  have rej_glob: "isl (fst (setGlobalPerm example_consts example_state
                   (word_of_byte 0 @ word_of_byte 1)))"
    by code_simp
  note T1 = rejected_flag_error_is_flag_only
    [where argsH = "addr_A @ word_of_byte 65" and addr = addr_A and w = "word_of_byte 65"
       and acc = ?accA
       and argsS = "addr_A @ word_of_byte 65 @ word_of_byte 1" and addrS = addr_A
       and wS = "word_of_byte 65" and vS = "word_of_byte 1" and accS = ?accA
       and argsG = "word_of_byte 65 @ word_of_byte 1" and wG = "word_of_byte 65"
       and vG = "word_of_byte 1" and accG = ?accG
       and st = example_state and c = example_consts and d = no_default]
  note T2 = rejected_flag_error_is_flag_only
    [where argsH = "addr_A @ word_of_byte 0" and addr = addr_A and w = "word_of_byte 0"
       and acc = ?accA
       and argsS = "addr_A @ word_of_byte 0 @ word_of_byte 1" and addrS = addr_A
       and wS = "word_of_byte 0" and vS = "word_of_byte 1" and accS = ?accA
       and argsG = "word_of_byte 0 @ word_of_byte 1" and wG = "word_of_byte 0"
       and vG = "word_of_byte 1" and accG = ?accG
       and st = example_state and c = example_consts and d = no_default]
  from T1 T2 a2 a3 aG z2 z3 zG known global invalid val rej_set rej_unset rej_glob
  show ?thesis by blast
qed

section \<open>SetBase followed by HasBase\<close>

text \<open>
  Claim C4. After a successful \<^verbatim>\<open>setBasePerm\<close> on an account with a flag and a value
  word, \<^verbatim>\<open>hasBasePerm\<close> on the same account and flag returns the encoded true when the
  value word has a non-zero byte and the encoded false when all its bytes are zero. The
  call can only succeed for an existing account and a valid flag. The result does not
  depend on how flags that are not explicitly set are answered, since the flag has just
  been set.
\<close>

theorem SetBase_then_HasBase:
  assumes set_args: "returnThreeArgs argsS = Some (addr, w, v)"
      and set_ok: "setBasePerm c st argsS = (Inr out, st')"
      and has_args: "returnTwoArgs argsH = Some (addr, w)"
  shows "((\<exists>b \<in> set v. b \<noteq> 0) \<longrightarrow> hasBasePerm d c st' argsH = (Inr (replicate 31 0 @ [1]), st'))
       \<and> ((\<forall>b \<in> set v. b = 0) \<longrightarrow> hasBasePerm d c st' argsH = (Inr (replicate 31 0 @ [0]), st'))"
proof -
  let ?f = "Uint64FromWord256 w"
  obtain acc where acc: "GetAccount st addr = Some acc"
    using set_args set_ok by (cases "GetAccount st addr") (auto simp: setBasePerm_unknown)
  have addr: "Address acc = addr"
    using acc by (rule GetAccount_Address)
  from set_ok have valid: "ValidPermN c ?f"
    by (auto simp: setBasePerm_known [OF set_args acc] split: if_splits)
  from set_ok valid obtain b where
    b: "Base_Set (Base (Permissions acc)) ?f (\<not> IsZero v) = Inr b" and
    st': "st' = UpdateAccount st (acc\<lparr>Permissions := (Permissions acc)\<lparr>Base := b\<rparr>\<rparr>)"
    by (auto simp: setBasePerm_known [OF set_args acc] split: sum.splits)
  let ?acc' = "acc\<lparr>Permissions := (Permissions acc)\<lparr>Base := b\<rparr>\<rparr>"
  have get': "GetAccount st' addr = Some ?acc'"
    by (simp add: st' GetAccount_UpdateAccount addr)
  have hp: "HasPermission d st' ?acc' ?f = (\<not> IsZero v)"
    by (rule HasPermission_after_Set [OF b]) simp
  have "hasBasePerm d c st' argsH =
          (Inr (replicate 31 0 @ [if \<not> IsZero v then 1 else 0]), st')"
    by (simp add: hasBasePerm_known [OF has_args get'] valid hp encoded_bool)
  then show ?thesis
    by (auto simp: IsZero_iff)
qed

theorem SetBase_then_HasBase_witness:
  "fst (hasBasePerm (global_default example_consts) example_consts
         (snd (setBasePerm example_consts example_state (addr_A @ word_of_byte 4 @ word_of_byte 1)))
         (addr_A @ word_of_byte 4)) = Inr (replicate 31 0 @ [1])
   \<and> fst (hasBasePerm (global_default example_consts) example_consts
         (snd (setBasePerm example_consts example_state (addr_A @ word_of_byte 4 @ word_of_byte 0)))
         (addr_A @ word_of_byte 4)) = Inr (replicate 31 0 @ [0])
   \<and> fst (hasBasePerm (global_default example_consts) example_consts example_state
         (addr_A @ word_of_byte 4)) = Inr (replicate 31 0 @ [0])"
proof -
  let ?on = "addr_A @ word_of_byte 4 @ word_of_byte 1"
  let ?off = "addr_A @ word_of_byte 4 @ word_of_byte 0"
  have a_on: "returnThreeArgs ?on = Some (addr_A, word_of_byte 4, word_of_byte 1)"
    by code_simp
  have a_off: "returnThreeArgs ?off = Some (addr_A, word_of_byte 4, word_of_byte 0)"
    by code_simp
  have a_has: "returnTwoArgs (addr_A @ word_of_byte 4) = Some (addr_A, word_of_byte 4)"
    by code_simp
  have ok_on: "setBasePerm example_consts example_state ?on
                 = (Inr (word_of_byte 1), snd (setBasePerm example_consts example_state ?on))"
    by code_simp
  have ok_off: "setBasePerm example_consts example_state ?off
                 = (Inr (word_of_byte 0), snd (setBasePerm example_consts example_state ?off))"
    by code_simp
  have nz: "\<exists>b \<in> set (word_of_byte 1). b \<noteq> 0"
    by code_simp
  have z: "\<forall>b \<in> set (word_of_byte 0). b = 0"
    by code_simp
  have before: "fst (hasBasePerm (global_default example_consts) example_consts example_state
         (addr_A @ word_of_byte 4)) = Inr (replicate 31 0 @ [0])"
    by code_simp
  from SetBase_then_HasBase [OF a_on ok_on a_has, of "global_default example_consts"] nz
  have on: "fst (hasBasePerm (global_default example_consts) example_consts
         (snd (setBasePerm example_consts example_state ?on)) (addr_A @ word_of_byte 4))
           = Inr (replicate 31 0 @ [1])"
    by simp
  from SetBase_then_HasBase [OF a_off ok_off a_has, of "global_default example_consts"] z
  have off: "fst (hasBasePerm (global_default example_consts) example_consts
         (snd (setBasePerm example_consts example_state ?off)) (addr_A @ word_of_byte 4))
           = Inr (replicate 31 0 @ [0])"
    by simp
  from on off before show ?thesis by blast
qed

section \<open>Which bytes of the flag word count\<close>

text \<open>
  Claim C9 says that two flag words that agree on their low eight bytes make every
  executable behave identically. This fails for \<^verbatim>\<open>unsetBasePerm\<close>, which returns the flag
  word itself (line 127 of snative.go): the two words below agree on the low eight bytes
  and the outputs differ in the first byte.
\<close>

theorem unsetBasePerm_output_depends_on_high_bytes:
  "drop 24 flag4_with_high_bytes = drop 24 (word_of_byte 4)
   \<and> fst (unsetBasePerm example_consts example_state (addr_A @ flag4_with_high_bytes))
       = Inr flag4_with_high_bytes
   \<and> fst (unsetBasePerm example_consts example_state (addr_A @ word_of_byte 4))
       = Inr (word_of_byte 4)
   \<and> flag4_with_high_bytes \<noteq> word_of_byte 4"
  by code_simp

text \<open>
  Claim C9, amended. The flag is read from the low eight bytes of the argument word: for
  a word of 32 bytes it is the number the word spells out, modulo \<open>2 ^ 64\<close>. Two
  argument words that agree on these bytes give \<^verbatim>\<open>hasBasePerm\<close>, \<^verbatim>\<open>setBasePerm\<close> and
  \<^verbatim>\<open>setGlobalPerm\<close> the same output, error and final state. They give \<^verbatim>\<open>unsetBasePerm\<close>
  the same final state and the same error; when it succeeds, each call returns its own
  argument word, upper bytes included.
\<close>

theorem flag_is_low_eight_bytes:
  assumes low: "drop 24 wa = drop 24 wb"
  shows "Uint64FromWord256 wa = Uint64FromWord256 wb
   \<and> (length wa = 32 \<longrightarrow> unat (Uint64FromWord256 wa) = Word256_value wa mod 2 ^ 64)
   \<and> (returnTwoArgs argsHa = Some (addr, wa) \<and> returnTwoArgs argsHb = Some (addr, wb) \<longrightarrow>
        hasBasePerm d c st argsHa = hasBasePerm d c st argsHb \<and>
        snd (unsetBasePerm c st argsHa) = snd (unsetBasePerm c st argsHb) \<and>
        (isl (fst (unsetBasePerm c st argsHa)) \<longrightarrow>
           fst (unsetBasePerm c st argsHa) = fst (unsetBasePerm c st argsHb)) \<and>
        (\<not> isl (fst (unsetBasePerm c st argsHa)) \<longrightarrow>
           fst (unsetBasePerm c st argsHa) = Inr wa \<and> fst (unsetBasePerm c st argsHb) = Inr wb))
   \<and> (returnThreeArgs argsSa = Some (addrS, wa, vS) \<and>
      returnThreeArgs argsSb = Some (addrS, wb, vS) \<longrightarrow>
        setBasePerm c st argsSa = setBasePerm c st argsSb)
   \<and> (returnTwoArgs argsGa = Some (wa, vG) \<and> returnTwoArgs argsGb = Some (wb, vG) \<longrightarrow>
        setGlobalPerm c st argsGa = setGlobalPerm c st argsGb)"
proof -
  have eq: "Uint64FromWord256 wa = Uint64FromWord256 wb"
    using low by (rule Uint64FromWord256_low_bytes)
  have H: "hasBasePerm d c st argsHa = hasBasePerm d c st argsHb \<and>
        snd (unsetBasePerm c st argsHa) = snd (unsetBasePerm c st argsHb) \<and>
        (isl (fst (unsetBasePerm c st argsHa)) \<longrightarrow>
           fst (unsetBasePerm c st argsHa) = fst (unsetBasePerm c st argsHb)) \<and>
        (\<not> isl (fst (unsetBasePerm c st argsHa)) \<longrightarrow>
           fst (unsetBasePerm c st argsHa) = Inr wa \<and> fst (unsetBasePerm c st argsHb) = Inr wb)"
    if a: "returnTwoArgs argsHa = Some (addr, wa)" "returnTwoArgs argsHb = Some (addr, wb)"
  proof (cases "GetAccount st addr")
    case None
    then show ?thesis
      by (simp add: hasBasePerm_unknown [OF a(1)] hasBasePerm_unknown [OF a(2)]
                    unsetBasePerm_unknown [OF a(1)] unsetBasePerm_unknown [OF a(2)])
  next
    case (Some acc)
    then show ?thesis
      by (auto simp: hasBasePerm_known [OF a(1)] hasBasePerm_known [OF a(2)]
                     unsetBasePerm_known [OF a(1)] unsetBasePerm_known [OF a(2)] eq Bytes_def
               split: sum.splits)
  qed
  have S: "setBasePerm c st argsSa = setBasePerm c st argsSb"
    if a: "returnThreeArgs argsSa = Some (addrS, wa, vS)"
          "returnThreeArgs argsSb = Some (addrS, wb, vS)"
  proof (cases "GetAccount st addrS")
    case None
    then show ?thesis
      by (simp add: setBasePerm_unknown [OF a(1)] setBasePerm_unknown [OF a(2)])
  next
    case (Some acc)
    then show ?thesis
      by (simp add: setBasePerm_known [OF a(1)] setBasePerm_known [OF a(2)] eq)
  qed
  have G: "setGlobalPerm c st argsGa = setGlobalPerm c st argsGb"
    if a: "returnTwoArgs argsGa = Some (wa, vG)" "returnTwoArgs argsGb = Some (wb, vG)"
  proof (cases "GetAccount st (GlobalPermissionsAddress256 c)")
    case None
    then show ?thesis
      by (simp add: setGlobalPerm_absent [OF a(1)] setGlobalPerm_absent [OF a(2)])
  next
    case (Some acc)
    then show ?thesis
      by (simp add: setGlobalPerm_present [OF a(1)] setGlobalPerm_present [OF a(2)] eq)
  qed
  from eq H S G Uint64FromWord256_value [of wa] show ?thesis by blast
qed

theorem flag_is_low_eight_bytes_witness:
  "Uint64FromWord256 flag4_with_high_bytes = Uint64FromWord256 (word_of_byte 4)
   \<and> unat (Uint64FromWord256 flag4_with_high_bytes)
       = Word256_value flag4_with_high_bytes mod 2 ^ 64
   \<and> hasBasePerm no_default example_consts example_state (addr_A @ flag4_with_high_bytes)
       = hasBasePerm no_default example_consts example_state (addr_A @ word_of_byte 4)
   \<and> snd (unsetBasePerm example_consts example_state (addr_A @ flag4_with_high_bytes))
       = snd (unsetBasePerm example_consts example_state (addr_A @ word_of_byte 4))
   \<and> fst (unsetBasePerm example_consts example_state (addr_A @ flag4_with_high_bytes))
       = Inr flag4_with_high_bytes
   \<and> fst (unsetBasePerm example_consts example_state (addr_A @ word_of_byte 4))
       = Inr (word_of_byte 4)
   \<and> setBasePerm example_consts example_state (addr_A @ flag4_with_high_bytes @ word_of_byte 1)
       = setBasePerm example_consts example_state (addr_A @ word_of_byte 4 @ word_of_byte 1)
   \<and> setGlobalPerm example_consts example_state (flag4_with_high_bytes @ word_of_byte 1)
       = setGlobalPerm example_consts example_state (word_of_byte 4 @ word_of_byte 1)"
proof -
  have low: "drop 24 flag4_with_high_bytes = drop 24 (word_of_byte 4)"
    by code_simp
  have h1: "returnTwoArgs (addr_A @ flag4_with_high_bytes) = Some (addr_A, flag4_with_high_bytes)"
    by code_simp
  have h2: "returnTwoArgs (addr_A @ word_of_byte 4) = Some (addr_A, word_of_byte 4)"
    by code_simp
  have s1: "returnThreeArgs (addr_A @ flag4_with_high_bytes @ word_of_byte 1)
              = Some (addr_A, flag4_with_high_bytes, word_of_byte 1)"
    by code_simp
  have s2: "returnThreeArgs (addr_A @ word_of_byte 4 @ word_of_byte 1)
              = Some (addr_A, word_of_byte 4, word_of_byte 1)"
    by code_simp
  have g1: "returnTwoArgs (flag4_with_high_bytes @ word_of_byte 1)
              = Some (flag4_with_high_bytes, word_of_byte 1)"
    by code_simp
  have g2: "returnTwoArgs (word_of_byte 4 @ word_of_byte 1) = Some (word_of_byte 4, word_of_byte 1)"
    by code_simp
  have ok: "\<not> isl (fst (unsetBasePerm example_consts example_state (addr_A @ flag4_with_high_bytes)))"
    by code_simp
  have len: "length flag4_with_high_bytes = 32"
    by code_simp
  from flag_is_low_eight_bytes
    [OF low,
     where argsHa = "addr_A @ flag4_with_high_bytes" and argsHb = "addr_A @ word_of_byte 4"
       and addr = addr_A
       and argsSa = "addr_A @ flag4_with_high_bytes @ word_of_byte 1"
       and argsSb = "addr_A @ word_of_byte 4 @ word_of_byte 1"
       and addrS = addr_A and vS = "word_of_byte 1"
       and argsGa = "flag4_with_high_bytes @ word_of_byte 1"
       and argsGb = "word_of_byte 4 @ word_of_byte 1" and vG = "word_of_byte 1"
       and st = example_state and c = example_consts and d = no_default]
    h1 h2 s1 s2 g1 g2 ok len
  show ?thesis by blast
qed

section \<open>Adding and removing roles\<close>

text \<open>
  Claim C6 says that for every existing account a successful \<^verbatim>\<open>addRole\<close> followed by
  \<^verbatim>\<open>rmRole\<close> of the same role restores the original role set. On an existing account
  \<^verbatim>\<open>addRole\<close> never ends in an error, so every such call is successful, also the one that
  finds the role already there. In that case the claim fails: the account at \<^verbatim>\<open>0xBB..BB\<close>
  has the role ``auditor''; \<^verbatim>\<open>addRole\<close> returns the encoded false without an error and
  changes nothing, \<^verbatim>\<open>rmRole\<close> then removes the role, and the account is left with no role
  where it had one.
\<close>

theorem add_then_remove_of_present_role_removes_it:
  "GetAccount example_state addr_B
     = Some \<lparr>Address = addr_B, Permissions = no_permissions\<lparr>Roles := {role_auditor}\<rparr>\<rparr>
   \<and> addRole example_state (addr_B @ role_auditor)
     = (Inr (replicate 31 0 @ [0]),
        UpdateAccount example_state
          \<lparr>Address = addr_B, Permissions = no_permissions\<lparr>Roles := {role_auditor}\<rparr>\<rparr>)
   \<and> fst (rmRole (snd (addRole example_state (addr_B @ role_auditor))) (addr_B @ role_auditor))
     = Inr (replicate 31 0 @ [1])
   \<and> GetAccount
       (snd (rmRole (snd (addRole example_state (addr_B @ role_auditor))) (addr_B @ role_auditor)))
       addr_B
     = Some \<lparr>Address = addr_B, Permissions = no_permissions\<lparr>Roles := {}\<rparr>\<rparr>
   \<and> ({} :: byte list set) \<noteq> {role_auditor}"
  by code_simp

text \<open>
  Claim C6, amended. For an existing account: \<^verbatim>\<open>addRole\<close> with a role that is present
  returns the encoded false and leaves the account, and so its role set, as it was;
  \<^verbatim>\<open>rmRole\<close> with a role that is absent does the same; and when \<^verbatim>\<open>addRole\<close> adds the
  role, that is when the role was not present and the call returns the encoded true,
  \<^verbatim>\<open>rmRole\<close> of the same role right after it returns the encoded true and brings the
  account back to what it was, role set included.
\<close>

theorem role_add_remove:
  assumes args: "returnTwoArgs args = Some (addr, role)"
      and acc: "GetAccount st addr = Some acc"
  shows "(Bytes role \<in> Roles (Permissions acc) \<longrightarrow>
            fst (addRole st args) = Inr (replicate 31 0 @ [0]) \<and>
            GetAccount (snd (addRole st args)) addr = Some acc)
       \<and> (Bytes role \<notin> Roles (Permissions acc) \<longrightarrow>
            fst (rmRole st args) = Inr (replicate 31 0 @ [0]) \<and>
            GetAccount (snd (rmRole st args)) addr = Some acc)
       \<and> (fst (addRole st args) = Inr (replicate 31 0 @ [1]) \<longrightarrow>
            fst (rmRole (snd (addRole st args)) args) = Inr (replicate 31 0 @ [1]) \<and>
            GetAccount (snd (rmRole (snd (addRole st args)) args)) addr = Some acc)"
proof -
  let ?r = "Bytes role"
  have addr: "Address acc = addr"
    using acc by (rule GetAccount_Address)
  have was_present: "fst (addRole st args) = Inr (replicate 31 0 @ [0]) \<and>
                 GetAccount (snd (addRole st args)) addr = Some acc"
    if "?r \<in> Roles (Permissions acc)"
    using that
    by (simp add: addRole_known [OF args acc] Permissions_AddRole_def encoded_bool
                  GetAccount_UpdateAccount addr)
  have was_absent: "fst (rmRole st args) = Inr (replicate 31 0 @ [0]) \<and>
                GetAccount (snd (rmRole st args)) addr = Some acc"
    if "?r \<notin> Roles (Permissions acc)"
    using that
    by (simp add: rmRole_known [OF args acc] Permissions_RmRole_def encoded_bool
                  GetAccount_UpdateAccount addr)
  have round_trip: "fst (rmRole (snd (addRole st args)) args) = Inr (replicate 31 0 @ [1]) \<and>
              GetAccount (snd (rmRole (snd (addRole st args)) args)) addr = Some acc"
    if added: "fst (addRole st args) = Inr (replicate 31 0 @ [1])"
  proof -
    from added have new: "?r \<notin> Roles (Permissions acc)"
      by (auto simp: addRole_known [OF args acc] Permissions_AddRole_def encoded_bool
               split: if_splits)
    let ?acc1 = "acc\<lparr>Permissions := (Permissions acc)\<lparr>Roles := insert ?r (Roles (Permissions acc))\<rparr>\<rparr>"
    let ?st1 = "snd (addRole st args)"
    have st1: "?st1 = UpdateAccount st ?acc1"
      using new by (simp add: addRole_known [OF args acc] Permissions_AddRole_def)
    have acc1: "GetAccount ?st1 addr = Some ?acc1"
      by (simp add: st1 GetAccount_UpdateAccount addr)
    show ?thesis
      using new
      by (simp add: rmRole_known [OF args acc1] Permissions_RmRole_def encoded_bool
                    GetAccount_UpdateAccount addr)
  qed
  from was_present was_absent round_trip show ?thesis by blast
qed

theorem role_add_remove_witness:
  "fst (addRole example_state (addr_B @ role_auditor)) = Inr (replicate 31 0 @ [0])
   \<and> GetAccount (snd (addRole example_state (addr_B @ role_auditor))) addr_B
       = Some \<lparr>Address = addr_B, Permissions = no_permissions\<lparr>Roles := {role_auditor}\<rparr>\<rparr>
   \<and> fst (rmRole example_state (addr_B @ role_admin)) = Inr (replicate 31 0 @ [0])
   \<and> GetAccount (snd (rmRole example_state (addr_B @ role_admin))) addr_B
       = Some \<lparr>Address = addr_B, Permissions = no_permissions\<lparr>Roles := {role_auditor}\<rparr>\<rparr>
   \<and> fst (addRole example_state (addr_B @ role_admin)) = Inr (replicate 31 0 @ [1])
   \<and> fst (rmRole
            (snd (addRole example_state (addr_B @ role_admin)))
            (addr_B @ role_admin)) = Inr (replicate 31 0 @ [1])
   \<and> GetAccount (snd (rmRole
                        (snd (addRole example_state (addr_B @ role_admin)))
                        (addr_B @ role_admin))) addr_B
       = Some \<lparr>Address = addr_B, Permissions = no_permissions\<lparr>Roles := {role_auditor}\<rparr>\<rparr>"
proof -
  let ?accB = "\<lparr>Address = addr_B, Permissions = no_permissions\<lparr>Roles := {role_auditor}\<rparr>\<rparr>"
  have a_aud: "returnTwoArgs (addr_B @ role_auditor) = Some (addr_B, role_auditor)"
    by code_simp
  have a_adm: "returnTwoArgs (addr_B @ role_admin) = Some (addr_B, role_admin)"
    by code_simp
  have known: "GetAccount example_state addr_B = Some ?accB"
    by code_simp
  have has_aud: "Bytes role_auditor \<in> Roles (Permissions ?accB)"
    by code_simp
  have no_adm: "Bytes role_admin \<notin> Roles (Permissions ?accB)"
    by code_simp
  have added: "fst (addRole example_state (addr_B @ role_admin))
                 = Inr (replicate 31 0 @ [1])"
    by code_simp
  from role_add_remove [OF a_aud known] has_aud
  have p1: "fst (addRole example_state (addr_B @ role_auditor)) = Inr (replicate 31 0 @ [0])
            \<and> GetAccount (snd (addRole example_state (addr_B @ role_auditor))) addr_B
                = Some ?accB"
    by blast
  from role_add_remove [OF a_adm known] no_adm added
  have p2: "fst (rmRole example_state (addr_B @ role_admin)) = Inr (replicate 31 0 @ [0])
            \<and> GetAccount (snd (rmRole example_state (addr_B @ role_admin))) addr_B
                = Some ?accB
            \<and> fst (rmRole
                  (snd (addRole example_state (addr_B @ role_admin)))
                  (addr_B @ role_admin)) = Inr (replicate 31 0 @ [1])
            \<and> GetAccount (snd (rmRole
                        (snd (addRole example_state (addr_B @ role_admin)))
                        (addr_B @ role_admin))) addr_B = Some ?accB"
    by blast
  from p1 p2 added show ?thesis by blast
qed

text \<open>
  Whatever \<^verbatim>\<open>addRole\<close> reports, \<^verbatim>\<open>addRole\<close> followed by \<^verbatim>\<open>rmRole\<close> of the same role leaves
  the account without that role. If the account had the role before, \<^verbatim>\<open>addRole\<close> reports
  false and the pair of calls takes the role away.
\<close>

lemma addRole_then_rmRole_roles:
  assumes args: "returnTwoArgs args = Some (addr, role)"
      and acc: "GetAccount st addr = Some acc"
  shows "GetAccount (snd (rmRole (snd (addRole st args)) args)) addr =
           Some (acc\<lparr>Permissions :=
                   (Permissions acc)\<lparr>Roles := Roles (Permissions acc) - {Bytes role}\<rparr>\<rparr>)"
proof -
  have addr: "Address acc = addr"
    using acc by (rule GetAccount_Address)
  let ?acc1 = "acc\<lparr>Permissions := snd (Permissions_AddRole (Permissions acc) (Bytes role))\<rparr>"
  have acc1: "GetAccount (snd (addRole st args)) addr = Some ?acc1"
    by (simp add: addRole_known [OF args acc] GetAccount_UpdateAccount addr)
  show ?thesis
    by (simp add: rmRole_known [OF args acc1] GetAccount_UpdateAccount addr
                  Permissions_AddRole_def Permissions_RmRole_def)
qed

section \<open>Booleans as words\<close>

text \<open>
  Claim C8. The outputs of \<^verbatim>\<open>hasBasePerm\<close>, \<^verbatim>\<open>hasRole\<close>, \<^verbatim>\<open>addRole\<close> and \<^verbatim>\<open>rmRole\<close> are
  words of 31 zero bytes followed by the byte 1 for true or 0 for false, and tell
  respectively whether the permission is held, whether the role is present, whether it
  was newly added and whether it was removed. The value word of \<^verbatim>\<open>setBasePerm\<close> and
  \<^verbatim>\<open>setGlobalPerm\<close> counts as true exactly when one of its 32 bytes is non-zero: that is
  the boolean handed to \<^verbatim>\<open>Set\<close>.
\<close>

theorem booleans_as_words:
  "(returnTwoArgs args = Some (addr, w) \<and> GetAccount st addr = Some acc \<longrightarrow>
      (ValidPermN c (Uint64FromWord256 w) \<longrightarrow>
         fst (hasBasePerm d c st args) =
           Inr (replicate 31 0 @ [if HasPermission d st acc (Uint64FromWord256 w) then 1 else 0])) \<and>
      fst (hasRole st args) =
        Inr (replicate 31 0 @ [if Bytes w \<in> Roles (Permissions acc) then 1 else 0]) \<and>
      fst (addRole st args) =
        Inr (replicate 31 0 @ [if Bytes w \<in> Roles (Permissions acc) then 0 else 1]) \<and>
      fst (rmRole st args) =
        Inr (replicate 31 0 @ [if Bytes w \<in> Roles (Permissions acc) then 1 else 0]))
   \<and> (fst (hasBasePerm d c st args) = Inr out \<longrightarrow>
        out = replicate 31 0 @ [1] \<or> out = replicate 31 0 @ [0])
   \<and> (fst (hasRole st args) = Inr out \<longrightarrow>
        out = replicate 31 0 @ [1] \<or> out = replicate 31 0 @ [0])
   \<and> (fst (addRole st args) = Inr out \<longrightarrow>
        out = replicate 31 0 @ [1] \<or> out = replicate 31 0 @ [0])
   \<and> (fst (rmRole st args) = Inr out \<longrightarrow>
        out = replicate 31 0 @ [1] \<or> out = replicate 31 0 @ [0])
   \<and> (returnThreeArgs argsS = Some (addrS, wS, vS) \<and> GetAccount st addrS = Some accS \<and>
      \<not> isl (fst (setBasePerm c st argsS)) \<longrightarrow>
        (\<exists>b. Base_Set (Base (Permissions accS)) (Uint64FromWord256 wS) (\<exists>x \<in> set vS. x \<noteq> 0) = Inr b \<and>
             snd (setBasePerm c st argsS) =
               UpdateAccount st (accS\<lparr>Permissions := (Permissions accS)\<lparr>Base := b\<rparr>\<rparr>)))
   \<and> (returnTwoArgs argsG = Some (wG, vG) \<and>
      GetAccount st (GlobalPermissionsAddress256 c) = Some accG \<and>
      \<not> isl (fst (setGlobalPerm c st argsG)) \<longrightarrow>
        (\<exists>b. Base_Set (Base (Permissions accG)) (Uint64FromWord256 wG) (\<exists>x \<in> set vG. x \<noteq> 0) = Inr b \<and>
             snd (setGlobalPerm c st argsG) =
               UpdateAccount st (accG\<lparr>Permissions := (Permissions accG)\<lparr>Base := b\<rparr>\<rparr>)))"
proof -
  have res: "(ValidPermN c (Uint64FromWord256 w) \<longrightarrow>
         fst (hasBasePerm d c st args) =
           Inr (replicate 31 0 @ [if HasPermission d st acc (Uint64FromWord256 w) then 1 else 0])) \<and>
      fst (hasRole st args) =
        Inr (replicate 31 0 @ [if Bytes w \<in> Roles (Permissions acc) then 1 else 0]) \<and>
      fst (addRole st args) =
        Inr (replicate 31 0 @ [if Bytes w \<in> Roles (Permissions acc) then 0 else 1]) \<and>
      fst (rmRole st args) =
        Inr (replicate 31 0 @ [if Bytes w \<in> Roles (Permissions acc) then 1 else 0])"
    if "returnTwoArgs args = Some (addr, w)" "GetAccount st addr = Some acc"
    by (simp add: hasBasePerm_known [OF that] hasRole_known [OF that] addRole_known [OF that]
                  rmRole_known [OF that] encoded_bool Permissions_HasRole_def
                  Permissions_AddRole_def Permissions_RmRole_def)
  have hb: "out = replicate 31 0 @ [1] \<or> out = replicate 31 0 @ [0]"
    if "fst (hasBasePerm d c st args) = Inr out"
    using that
    by (auto simp: hasBasePerm_def Let_def encoded_bool split: option.splits if_splits)
  have hr: "out = replicate 31 0 @ [1] \<or> out = replicate 31 0 @ [0]"
    if "fst (hasRole st args) = Inr out"
    using that
    by (auto simp: hasRole_def Let_def encoded_bool split: option.splits if_splits)
  have ar: "out = replicate 31 0 @ [1] \<or> out = replicate 31 0 @ [0]"
    if "fst (addRole st args) = Inr out"
    using that
    by (auto simp: addRole_def Let_def encoded_bool split: option.splits prod.splits if_splits)
  have rr: "out = replicate 31 0 @ [1] \<or> out = replicate 31 0 @ [0]"
    if "fst (rmRole st args) = Inr out"
    using that
    by (auto simp: rmRole_def Let_def encoded_bool split: option.splits prod.splits if_splits)
  have nz: "(\<not> IsZero v) = (\<exists>x \<in> set v. x \<noteq> 0)" for v
    by (simp add: IsZero_iff)
  have sb: "\<exists>b. Base_Set (Base (Permissions accS)) (Uint64FromWord256 wS) (\<exists>x \<in> set vS. x \<noteq> 0) = Inr b \<and>
             snd (setBasePerm c st argsS) =
               UpdateAccount st (accS\<lparr>Permissions := (Permissions accS)\<lparr>Base := b\<rparr>\<rparr>)"
    if a: "returnThreeArgs argsS = Some (addrS, wS, vS)" "GetAccount st addrS = Some accS"
      and ok: "\<not> isl (fst (setBasePerm c st argsS))"
    using ok unfolding setBasePerm_known [OF a] nz
    by (auto split: if_splits sum.splits)
  have sg: "\<exists>b. Base_Set (Base (Permissions accG)) (Uint64FromWord256 wG) (\<exists>x \<in> set vG. x \<noteq> 0) = Inr b \<and>
             snd (setGlobalPerm c st argsG) =
               UpdateAccount st (accG\<lparr>Permissions := (Permissions accG)\<lparr>Base := b\<rparr>\<rparr>)"
    if a: "returnTwoArgs argsG = Some (wG, vG)"
          "GetAccount st (GlobalPermissionsAddress256 c) = Some accG"
      and ok: "\<not> isl (fst (setGlobalPerm c st argsG))"
    using ok unfolding setGlobalPerm_present [OF a] nz
    by (auto split: if_splits sum.splits)
  from res hb hr ar rr sb sg show ?thesis by blast
qed

text \<open>
  On the concrete state, with a value word whose only non-zero byte is the first one: the
  permission is switched on.
\<close>

theorem booleans_as_words_witness:
  "fst (hasBasePerm no_default example_consts example_state (addr_A @ word_of_byte 4))
     = Inr (replicate 31 0 @ [0])
   \<and> fst (hasRole example_state (addr_B @ role_auditor)) = Inr (replicate 31 0 @ [1])
   \<and> fst (addRole example_state (addr_B @ role_auditor)) = Inr (replicate 31 0 @ [0])
   \<and> fst (rmRole example_state (addr_B @ role_auditor)) = Inr (replicate 31 0 @ [1])
   \<and> snd (setBasePerm example_consts example_state (addr_A @ word_of_byte 4 @ high_byte_only))
       = UpdateAccount example_state
           \<lparr>Address = addr_A,
            Permissions = no_permissions\<lparr>Base := \<lparr>Perms = 4, SetBit = 4\<rparr>\<rparr>\<rparr>
   \<and> snd (setGlobalPerm example_consts example_state (word_of_byte 4 @ word_of_byte 0))
       = UpdateAccount example_state
           \<lparr>Address = replicate 32 0,
            Permissions = no_permissions\<lparr>Base := \<lparr>Perms = 0, SetBit = 4\<rparr>\<rparr>\<rparr>"
proof -
  let ?accA = "\<lparr>Address = addr_A, Permissions = no_permissions\<rparr>"
  let ?accB = "\<lparr>Address = addr_B, Permissions = no_permissions\<lparr>Roles := {role_auditor}\<rparr>\<rparr>"
  let ?accG = "\<lparr>Address = replicate 32 0, Permissions = no_permissions\<rparr>"
  have aH: "returnTwoArgs (addr_A @ word_of_byte 4) = Some (addr_A, word_of_byte 4)"
    by code_simp
  have aR: "returnTwoArgs (addr_B @ role_auditor) = Some (addr_B, role_auditor)"
    by code_simp
  have aS: "returnThreeArgs (addr_A @ word_of_byte 4 @ high_byte_only)
              = Some (addr_A, word_of_byte 4, high_byte_only)"
    by code_simp
  have aG: "returnTwoArgs (word_of_byte 4 @ word_of_byte 0) = Some (word_of_byte 4, word_of_byte 0)"
    by code_simp
  have kA: "GetAccount example_state addr_A = Some ?accA"
    by code_simp
  have kB: "GetAccount example_state addr_B = Some ?accB"
    by code_simp
  have kG: "GetAccount example_state (GlobalPermissionsAddress256 example_consts) = Some ?accG"
    by code_simp
  have valid: "ValidPermN example_consts (Uint64FromWord256 (word_of_byte 4))"
    by code_simp
  have hp: "\<not> HasPermission no_default example_state ?accA (Uint64FromWord256 (word_of_byte 4))"
    by code_simp
  have member: "Bytes role_auditor \<in> Roles (Permissions ?accB)"
    by code_simp
  have okS: "\<not> isl (fst (setBasePerm example_consts example_state
                (addr_A @ word_of_byte 4 @ high_byte_only)))"
    by code_simp
  have okG: "\<not> isl (fst (setGlobalPerm example_consts example_state
                (word_of_byte 4 @ word_of_byte 0)))"
    by code_simp
  have setS: "Base_Set (Base (Permissions ?accA)) (Uint64FromWord256 (word_of_byte 4))
                (\<exists>x \<in> set high_byte_only. x \<noteq> 0) = Inr \<lparr>Perms = 4, SetBit = 4\<rparr>"
    by code_simp
  have setG: "Base_Set (Base (Permissions ?accG)) (Uint64FromWord256 (word_of_byte 4))
                (\<exists>x \<in> set (word_of_byte 0). x \<noteq> 0) = Inr \<lparr>Perms = 0, SetBit = 4\<rparr>"
    by code_simp
  have updA: "?accA\<lparr>Permissions := (Permissions ?accA)\<lparr>Base := \<lparr>Perms = 4, SetBit = 4\<rparr>\<rparr>\<rparr>
               = \<lparr>Address = addr_A, Permissions = no_permissions\<lparr>Base := \<lparr>Perms = 4, SetBit = 4\<rparr>\<rparr>\<rparr>"
    by simp
  have updG: "?accG\<lparr>Permissions := (Permissions ?accG)\<lparr>Base := \<lparr>Perms = 0, SetBit = 4\<rparr>\<rparr>\<rparr>
               = \<lparr>Address = replicate 32 0, Permissions = no_permissions\<lparr>Base := \<lparr>Perms = 0, SetBit = 4\<rparr>\<rparr>\<rparr>"
    by simp
  note T1 = booleans_as_words
    [where args = "addr_A @ word_of_byte 4" and addr = addr_A and w = "word_of_byte 4"
       and acc = ?accA
       and argsS = "addr_A @ word_of_byte 4 @ high_byte_only" and addrS = addr_A
       and wS = "word_of_byte 4" and vS = high_byte_only and accS = ?accA
       and argsG = "word_of_byte 4 @ word_of_byte 0" and wG = "word_of_byte 4"
       and vG = "word_of_byte 0" and accG = ?accG
       and st = example_state and c = example_consts and d = no_default]
  note T2 = booleans_as_words
    [where args = "addr_B @ role_auditor" and addr = addr_B and w = role_auditor
       and acc = ?accB and st = example_state and c = example_consts]
  from T1 aH kA valid hp
  have r1: "fst (hasBasePerm no_default example_consts example_state (addr_A @ word_of_byte 4))
              = Inr (replicate 31 0 @ [0])"
    by simp
  from T2 aR kB member
  have r2: "fst (hasRole example_state (addr_B @ role_auditor)) = Inr (replicate 31 0 @ [1])
     \<and> fst (addRole example_state (addr_B @ role_auditor)) = Inr (replicate 31 0 @ [0])
     \<and> fst (rmRole example_state (addr_B @ role_auditor)) = Inr (replicate 31 0 @ [1])"
    by simp
  from T1 aS kA okS setS
  have r3: "snd (setBasePerm example_consts example_state (addr_A @ word_of_byte 4 @ high_byte_only))
       = UpdateAccount example_state
           (?accA\<lparr>Permissions := (Permissions ?accA)\<lparr>Base := \<lparr>Perms = 4, SetBit = 4\<rparr>\<rparr>\<rparr>)"
    by auto
  from T1 aG kG okG setG
  have r4: "snd (setGlobalPerm example_consts example_state (word_of_byte 4 @ word_of_byte 0))
       = UpdateAccount example_state
           (?accG\<lparr>Permissions := (Permissions ?accG)\<lparr>Base := \<lparr>Perms = 0, SetBit = 4\<rparr>\<rparr>\<rparr>)"
    by auto
  from r1 r2 r3 r4 show ?thesis
    unfolding updA updG by blast
qed

section \<open>SetGlobal and the other accounts\<close>

text \<open>
  A successful \<^verbatim>\<open>setGlobalPerm\<close> writes one account, the one at the global permissions
  address, and every other address resolves to the same account as before. For another
  account on which the flag is explicitly set, \<^verbatim>\<open>hasBasePerm\<close> therefore answers as
  before.
\<close>

lemma setGlobalPerm_touches_global_account_only:
  assumes ok: "setGlobalPerm c st args = (Inr out, st')"
  shows "\<exists>acc'. Address acc' = GlobalPermissionsAddress256 c \<and> st' = UpdateAccount st acc'"
    and "addr \<noteq> GlobalPermissionsAddress256 c \<Longrightarrow> GetAccount st' addr = GetAccount st addr"
proof -
  from ok obtain wG vG where args: "returnTwoArgs args = Some (wG, vG)"
    by (cases "returnTwoArgs args") (auto simp: setGlobalPerm_def)
  from ok args obtain accG where g: "GetAccount st (GlobalPermissionsAddress256 c) = Some accG"
    by (cases "GetAccount st (GlobalPermissionsAddress256 c)") (auto simp: setGlobalPerm_absent)
  have a: "Address accG = GlobalPermissionsAddress256 c"
    using g by (rule GetAccount_Address)
  from ok obtain b where
    st': "st' = UpdateAccount st (accG\<lparr>Permissions := (Permissions accG)\<lparr>Base := b\<rparr>\<rparr>)"
    by (auto simp: setGlobalPerm_present [OF args g] split: if_splits sum.splits)
  show "\<exists>acc'. Address acc' = GlobalPermissionsAddress256 c \<and> st' = UpdateAccount st acc'"
    using st' a by (intro exI [of _ "accG\<lparr>Permissions := (Permissions accG)\<lparr>Base := b\<rparr>\<rparr>"]) simp
  show "GetAccount st' addr = GetAccount st addr" if "addr \<noteq> GlobalPermissionsAddress256 c"
    using that by (simp add: st' GetAccount_UpdateAccount a)
qed

lemma hasBasePerm_after_setGlobalPerm_explicit_flag:
  assumes ok: "setGlobalPerm c st argsG = (Inr out, st')"
      and args: "returnTwoArgs args = Some (addr, w)"
      and other: "addr \<noteq> GlobalPermissionsAddress256 c"
      and acc: "GetAccount st addr = Some acc"
      and explicit: "SetBit (Base (Permissions acc)) AND Uint64FromWord256 w \<noteq> 0"
  shows "fst (hasBasePerm d c st' args) = fst (hasBasePerm d c st args)"
proof -
  have acc': "GetAccount st' addr = Some acc"
    using setGlobalPerm_touches_global_account_only(2) [OF ok other] acc by simp
  show ?thesis
    using explicit
    by (simp add: hasBasePerm_known [OF args acc] hasBasePerm_known [OF args acc']
                  HasPermission_def)
qed

text \<open>
  For an account on which the flag is not explicitly set the answer is the one
  \<^verbatim>\<open>HasPermission\<close> gives for such flags, which the sources at hand do not contain. On
  the concrete state, the account at \<^verbatim>\<open>0xAA..AA\<close> and the flag 4: if a flag that is not set
  is simply not held, the answer is false before and after \<^verbatim>\<open>SetGlobal(4, 1)\<close>; if it
  takes the value of the global account, the answer turns from false to true.
\<close>

lemma hasBasePerm_after_setGlobalPerm_examples:
  "fst (hasBasePerm no_default example_consts example_state (addr_A @ word_of_byte 4))
     = Inr (replicate 31 0 @ [0])
   \<and> fst (hasBasePerm no_default example_consts
        (snd (setGlobalPerm example_consts example_state (word_of_byte 4 @ word_of_byte 1)))
        (addr_A @ word_of_byte 4)) = Inr (replicate 31 0 @ [0])
   \<and> fst (hasBasePerm (global_default example_consts) example_consts example_state
        (addr_A @ word_of_byte 4)) = Inr (replicate 31 0 @ [0])
   \<and> fst (hasBasePerm (global_default example_consts) example_consts
        (snd (setGlobalPerm example_consts example_state (word_of_byte 4 @ word_of_byte 1)))
        (addr_A @ word_of_byte 4)) = Inr (replicate 31 0 @ [1])"
  by code_simp

end
